theory Spec2Isabelle
  imports Main "HOL-Library.Word"
begin

section \<open>Row identifiers, chunks and failures\<close>

text \<open>
  Modelled from the spec: \<^verbatim>\<open>types.hpp\<close> is not among the sources. The spec calls
  the two fields of a RowReference "small unsigned integers" and reserves
  \<^verbatim>\<open>INVALID_CHUNK_ID\<close> for "no chunk"; they are 32-bit unsigned words here, and the
  reserved identifier is the largest of them. \<^verbatim>\<open>size_t\<close> values (lengths and
  indices of vectors) are natural numbers: no vector reaches the width of \<^verbatim>\<open>size_t\<close>,
  and the one narrowing cast the code makes, \<^verbatim>\<open>static_cast<ChunkOffset>(n)\<close>, is
  written \<open>of_nat n\<close>, which keeps the low 32 bits.
\<close>

type_synonym ChunkID = "32 word"
type_synonym ChunkOffset = "32 word"

record RowID =
  chunk_id :: ChunkID
  chunk_offset :: ChunkOffset

definition INVALID_CHUNK_ID :: ChunkID where
  "INVALID_CHUNK_ID = - 1"

text \<open>
  Modelled from the spec: \<^verbatim>\<open>chunk.hpp\<close> is not among the sources. A chunk is known
  here by its row count only (\<^verbatim>\<open>Chunk::size()\<close>, "the referenced chunk's current row
  count"). A \<^verbatim>\<open>std::shared_ptr<const Chunk>\<close> is an address or \<^verbatim>\<open>nullptr\<close>
  (\<open>None\<close>); two shared pointers compare equal when they hold the same address. The
  chunks live in a store that maps each address to the chunk found there.
\<close>

record Chunk =
  row_count :: ChunkOffset

type_synonym chunk_ptr = "nat option"
type_synonym chunk_store = "nat \<Rightarrow> Chunk"

definition Chunk_size :: "Chunk \<Rightarrow> ChunkOffset" where
  "Chunk_size c = row_count c"

text \<open>
  Modelled from the spec: \<^verbatim>\<open>utils/assert.hpp\<close> is not among the sources.
  \<^verbatim>\<open>Assert\<close> fails fast in every build; \<^verbatim>\<open>DebugAssert\<close> does so in debug builds only
  and is not evaluated at all in a release build. Every operation below that contains a
  \<^verbatim>\<open>DebugAssert\<close> takes the build as its first argument (\<open>True\<close> for a debug
  build). Reading a vector or an iterator outside its storage is undefined in C++; the
  model gives that outcome a value of its own, so that nothing can be concluded from it.
\<close>

datatype error = AssertionFailed | UndefinedBehaviour

definition Assert :: "bool \<Rightarrow> error + 'a \<Rightarrow> error + 'a" where
  "Assert cond continue = (if cond then continue else Inl AssertionFailed)"

definition DebugAssert :: "bool \<Rightarrow> bool \<Rightarrow> error + 'a \<Rightarrow> error + 'a" where
  "DebugAssert debug cond continue = (if debug then Assert cond continue else continue)"

text \<open>\<^verbatim>\<open>std::vector::operator[]\<close>: no bounds check.\<close>

definition Vector_at :: "RowID list \<Rightarrow> nat \<Rightarrow> error + RowID" where
  "Vector_at v n = (if n < length v then Inr (v ! n) else Inl UndefinedBehaviour)"

text \<open>
  \<^verbatim>\<open>std::vector::resize(n)\<close>: the first \<open>n\<close> elements are kept, missing ones are
  value-initialised. Its one caller overwrites every slot afterwards.
\<close>

definition Vector_resize :: "nat \<Rightarrow> RowID list \<Rightarrow> RowID list" where
  "Vector_resize n v =
     take n v @ replicate (n - length v) \<lparr>chunk_id = 0, chunk_offset = 0\<rparr>"

section \<open>\<^verbatim>\<open>pos_list.hpp\<close>, third revision: PosList with a matches-all sentinel\<close>

text \<open>
  \<^verbatim>\<open>struct PosList final : private pmr_vector<RowID>\<close> (lines 573 to 860 of
  \<^verbatim>\<open>src/lib/storage/pos_list.hpp\<close>): the vector it inherits, and its three members.
\<close>

record PosList =
  Vector :: "RowID list"
  matches_all_chunk :: chunk_ptr
  matches_all_chunk_id :: ChunkID
  single_chunk_flag :: bool

text \<open>Constructor (8), from an initializer list; the members keep their defaults.\<close>

definition PosList_init :: "RowID list \<Rightarrow> PosList" where
  "PosList_init init =
     \<lparr>Vector = init, matches_all_chunk = None, matches_all_chunk_id = INVALID_CHUNK_ID,
      single_chunk_flag = False\<rparr>"

definition guarantee_single_chunk :: "PosList \<Rightarrow> PosList" where
  "guarantee_single_chunk p = p\<lparr>single_chunk_flag := True\<rparr>"

text \<open>The custom constructor: match all entries in the given chunk.\<close>

definition PosList_matches_all :: "chunk_ptr \<Rightarrow> ChunkID \<Rightarrow> PosList" where
  "PosList_matches_all chunk chunkID =
     guarantee_single_chunk
       \<lparr>Vector = [], matches_all_chunk = chunk, matches_all_chunk_id = chunkID,
        single_chunk_flag = False\<rparr>"

text \<open>
  Constructor (6), \<^verbatim>\<open>PosList(PosList&& other)\<close>: the vector is moved, the flag is
  copied, the other two members are not mentioned and keep their defaults. The result is
  the new list and what is left of \<open>other\<close>, whose vector the move has emptied.
\<close>

definition PosList_move :: "PosList \<Rightarrow> PosList \<times> PosList" where
  "PosList_move other =
     (\<lparr>Vector = Vector other, matches_all_chunk = None,
       matches_all_chunk_id = INVALID_CHUNK_ID,
       single_chunk_flag = single_chunk_flag other\<rparr>,
      other\<lparr>Vector := []\<rparr>)"

definition matches_complete_chunk :: "PosList \<Rightarrow> bool" where
  "matches_complete_chunk p = (matches_all_chunk p \<noteq> None)"

definition PosList_size :: "chunk_store \<Rightarrow> PosList \<Rightarrow> nat" where
  "PosList_size h p =
     (case matches_all_chunk p of
        Some a \<Rightarrow> unat (Chunk_size (h a))
      | None \<Rightarrow> length (Vector p))"

definition PosList_empty :: "chunk_store \<Rightarrow> PosList \<Rightarrow> bool" where
  "PosList_empty h p = (PosList_size h p = 0)"

text \<open>
  \<^verbatim>\<open>_materialize\<close>: three debug assertions, then the vector is resized to the chunk's
  row count, every slot \<open>offset\<close> is assigned \<open>{_matches_all_chunk_id, offset}\<close>, and the
  sentinel is reset. Without a chunk the release build dereferences a null pointer.
\<close>

definition materialize_loop :: "ChunkID \<Rightarrow> nat \<Rightarrow> RowID list \<Rightarrow> RowID list" where
  "materialize_loop cid chunk_size v =
     foldl (\<lambda>w offset. w[offset := \<lparr>chunk_id = cid, chunk_offset = of_nat offset\<rparr>])
       v [0..<chunk_size]"

definition materialize :: "bool \<Rightarrow> chunk_store \<Rightarrow> PosList \<Rightarrow> error + PosList" where
  "materialize debug h p =
     DebugAssert debug (matches_all_chunk p \<noteq> None)
      (DebugAssert debug (matches_all_chunk_id p \<noteq> INVALID_CHUNK_ID)
        (DebugAssert debug (length (Vector p) = 0)
          (case matches_all_chunk p of
             None \<Rightarrow> Inl UndefinedBehaviour
           | Some a \<Rightarrow>
               let chunk_size = unat (Chunk_size (h a)) in
               Inr (p\<lparr>Vector := materialize_loop (matches_all_chunk_id p) chunk_size
                                  (Vector_resize chunk_size (Vector p)),
                       matches_all_chunk := None,
                       matches_all_chunk_id := INVALID_CHUNK_ID\<rparr>))))"

definition materialize_if_necessary :: "bool \<Rightarrow> chunk_store \<Rightarrow> PosList \<Rightarrow> error + PosList" where
  "materialize_if_necessary debug h p =
     (if matches_complete_chunk p then materialize debug h p else Inr p)"

text \<open>
  \<^verbatim>\<open>const_reference operator[](size_type n) const\<close>: casts the constness away,
  materializes, and reads the vector. The list it leaves behind is part of the result.
\<close>

definition PosList_subscript :: "bool \<Rightarrow> chunk_store \<Rightarrow> PosList \<Rightarrow> nat \<Rightarrow> error + RowID \<times> PosList" where
  "PosList_subscript debug h p n =
     (case materialize_if_necessary debug h p of
        Inl e \<Rightarrow> Inl e
      | Inr p' \<Rightarrow>
          (case Vector_at (Vector p') n of
             Inl e \<Rightarrow> Inl e
           | Inr r \<Rightarrow> Inr (r, p')))"

text \<open>
  \<^verbatim>\<open>cbegin() const\<close> and \<^verbatim>\<open>cend() const\<close>: a vector iterator is the index it
  points at.
\<close>

definition PosList_cbegin :: "bool \<Rightarrow> chunk_store \<Rightarrow> PosList \<Rightarrow> error + nat \<times> PosList" where
  "PosList_cbegin debug h p =
     (case materialize_if_necessary debug h p of
        Inl e \<Rightarrow> Inl e
      | Inr p' \<Rightarrow> Inr (0, p'))"

definition PosList_cend :: "bool \<Rightarrow> chunk_store \<Rightarrow> PosList \<Rightarrow> error + nat \<times> PosList" where
  "PosList_cend debug h p =
     (case materialize_if_necessary debug h p of
        Inl e \<Rightarrow> Inl e
      | Inr p' \<Rightarrow> Inr (length (Vector p'), p'))"

text \<open>
  The check inside \<^verbatim>\<open>references_single_chunk()\<close>, the lambda handed to
  \<^verbatim>\<open>DebugAssert\<close>: it reads element 0 and walks from \<^verbatim>\<open>cbegin()\<close> to
  \<^verbatim>\<open>cend()\<close>, each of which materializes.
\<close>

definition single_chunk_scan :: "bool \<Rightarrow> chunk_store \<Rightarrow> PosList \<Rightarrow> error + bool \<times> PosList" where
  "single_chunk_scan debug h p =
     (if PosList_size h p = 0 then Inr (True, p)
      else
        (case PosList_subscript debug h p 0 of
           Inl e \<Rightarrow> Inl e
         | Inr (first, p1) \<Rightarrow>
             (case PosList_cbegin debug h p1 of
                Inl e \<Rightarrow> Inl e
              | Inr (b, p2) \<Rightarrow>
                  (case PosList_cend debug h p2 of
                     Inl e \<Rightarrow> Inl e
                   | Inr (e, p3) \<Rightarrow>
                       Inr (list_all (\<lambda>row_id. chunk_id row_id = chunk_id first)
                              (take (e - b) (drop b (Vector p3))), p3)))))"

definition PosList_references_single_chunk ::
  "bool \<Rightarrow> chunk_store \<Rightarrow> PosList \<Rightarrow> error + bool \<times> PosList" where
  "PosList_references_single_chunk debug h p =
     (case (if single_chunk_flag p \<and> debug then single_chunk_scan debug h p
            else Inr (True, p)) of
        Inl e \<Rightarrow> Inl e
      | Inr (holds, p') \<Rightarrow>
          DebugAssert debug holds
            (DebugAssert debug
               (if matches_complete_chunk p' then single_chunk_flag p' else True)
               (Inr (single_chunk_flag p', p'))))"

definition PosList_common_chunk_id ::
  "bool \<Rightarrow> chunk_store \<Rightarrow> PosList \<Rightarrow> error + ChunkID \<times> PosList" where
  "PosList_common_chunk_id debug h p =
     (case (if debug then PosList_references_single_chunk debug h p else Inr (True, p)) of
        Inl e \<Rightarrow> Inl e
      | Inr (single, p1) \<Rightarrow>
          DebugAssert debug single
            (Assert (\<not> PosList_empty h p1)
               (if matches_complete_chunk p1 then Inr (matches_all_chunk_id p1, p1)
                else
                  (case PosList_subscript debug h p1 0 of
                     Inl e \<Rightarrow> Inl e
                   | Inr (r, p2) \<Rightarrow> Inr (chunk_id r, p2)))))"

text \<open>
  \<^verbatim>\<open>matches_all_equal_to_materialized\<close>: the loop walks the materialized vector and
  counts the expected offset up from 0.
\<close>

fun expected_loop :: "RowID \<Rightarrow> RowID list \<Rightarrow> bool" where
  "expected_loop expected_id [] = True"
| "expected_loop expected_id (materialized_row_id # rest) =
     (if expected_id = materialized_row_id
      then expected_loop (expected_id\<lparr>chunk_offset := chunk_offset expected_id + 1\<rparr>) rest
      else False)"

definition matches_all_equal_to_materialized ::
  "bool \<Rightarrow> chunk_store \<Rightarrow> PosList \<Rightarrow> RowID list \<Rightarrow> error + bool \<times> PosList" where
  "matches_all_equal_to_materialized debug h matches_all_list materialized_list =
     DebugAssert debug (matches_complete_chunk matches_all_list)
       (if PosList_size h matches_all_list \<noteq> length materialized_list
        then Inr (False, matches_all_list)
        else
          (case PosList_common_chunk_id debug h matches_all_list of
             Inl e \<Rightarrow> Inl e
           | Inr (c, l) \<Rightarrow>
               Inr (expected_loop \<lparr>chunk_id = c, chunk_offset = 0\<rparr> materialized_list, l)))"

text \<open>
  \<^verbatim>\<open>operator==(const PosList& lhs, const PosList& rhs)\<close>. The result carries both
  lists as the comparison leaves them.
\<close>

definition PosList_operator_eq ::
  "bool \<Rightarrow> chunk_store \<Rightarrow> PosList \<Rightarrow> PosList \<Rightarrow> error + bool \<times> PosList \<times> PosList" where
  "PosList_operator_eq debug h lhs rhs =
     (if matches_complete_chunk lhs \<and> matches_complete_chunk rhs
      then Inr (matches_all_chunk lhs = matches_all_chunk rhs, lhs, rhs)
      else if matches_complete_chunk lhs
      then
        (case matches_all_equal_to_materialized debug h lhs (Vector rhs) of
           Inl e \<Rightarrow> Inl e
         | Inr (b, lhs') \<Rightarrow> Inr (b, lhs', rhs))
      else if matches_complete_chunk rhs
      then
        (case matches_all_equal_to_materialized debug h rhs (Vector lhs) of
           Inl e \<Rightarrow> Inl e
         | Inr (b, rhs') \<Rightarrow> Inr (b, lhs, rhs'))
      else Inr (Vector lhs = Vector rhs, lhs, rhs))"

text \<open>
  What a list denotes, in the spec's words: "an ordered sequence of RowReference"; for
  a list that matches a whole chunk, "element i is synthesized as \<open>{chunk_id, i}\<close>" for
  each row of the chunk. This definition follows the spec, not a function of the source.
\<close>

definition logical_sequence :: "chunk_store \<Rightarrow> PosList \<Rightarrow> RowID list" where
  "logical_sequence h p =
     (case matches_all_chunk p of
        Some a \<Rightarrow>
          map (\<lambda>i. \<lparr>chunk_id = matches_all_chunk_id p, chunk_offset = of_nat i\<rparr>)
            [0..<unat (Chunk_size (h a))]
      | None \<Rightarrow> Vector p)"

section \<open>\<^verbatim>\<open>pos_list.hpp\<close>, first revision: the iterator wrapper\<close>

text \<open>
  Lines 19 to 243 of \<^verbatim>\<open>src/lib/storage/pos_list.hpp\<close>. This revision inherits
  \<^verbatim>\<open>size\<close> and \<^verbatim>\<open>operator[]\<close> from the vector unchanged, and wraps the iteration:
  \<^verbatim>\<open>class iterator\<close> owns either a vector iterator (here the index it points at) or a
  \<^verbatim>\<open>MatchesAllIterator\<close> (here the RowID it currently holds).
\<close>

record PosList1 =
  Vector1 :: "RowID list"
  matches_all_chunk1 :: chunk_ptr
  chunk_id1 :: ChunkID
  single_chunk_flag1 :: bool

datatype iterator = vector_base_it nat | matches_all_base_it RowID

text \<open>
  \<^verbatim>\<open>iterator::operator==\<close> reads the other side's pointer of the same kind without
  asking whether it is set.
\<close>

definition iterator_operator_eq :: "iterator \<Rightarrow> iterator \<Rightarrow> error + bool" where
  "iterator_operator_eq it other =
     (case it of
        vector_base_it i \<Rightarrow>
          (case other of
             vector_base_it j \<Rightarrow> Inr (i = j)
           | matches_all_base_it r \<Rightarrow> Inl UndefinedBehaviour)
      | matches_all_base_it q \<Rightarrow>
          (case other of
             vector_base_it j \<Rightarrow> Inl UndefinedBehaviour
           | matches_all_base_it r \<Rightarrow> Inr (q = r)))"

definition iterator_dereference :: "RowID list \<Rightarrow> iterator \<Rightarrow> error + RowID" where
  "iterator_dereference v it =
     (case it of
        vector_base_it i \<Rightarrow> Vector_at v i
      | matches_all_base_it q \<Rightarrow> Inr q)"

definition iterator_increment :: "iterator \<Rightarrow> iterator" where
  "iterator_increment it =
     (case it of
        vector_base_it i \<Rightarrow> vector_base_it (i + 1)
      | matches_all_base_it q \<Rightarrow>
          matches_all_base_it (q\<lparr>chunk_offset := chunk_offset q + 1\<rparr>))"

definition PosList1_size :: "PosList1 \<Rightarrow> nat" where
  "PosList1_size p = length (Vector1 p)"

definition PosList1_subscript :: "PosList1 \<Rightarrow> nat \<Rightarrow> error + RowID" where
  "PosList1_subscript p n = Vector_at (Vector1 p) n"

definition PosList1_begin :: "chunk_store \<Rightarrow> PosList1 \<Rightarrow> iterator" where
  "PosList1_begin h p =
     (case matches_all_chunk1 p of
        Some a \<Rightarrow> matches_all_base_it \<lparr>chunk_id = chunk_id1 p, chunk_offset = 0\<rparr>
      | None \<Rightarrow> vector_base_it 0)"

text \<open>Line 203: the vector branch of \<^verbatim>\<open>end()\<close> returns \<^verbatim>\<open>Vector::begin()\<close>.\<close>

definition PosList1_end :: "chunk_store \<Rightarrow> PosList1 \<Rightarrow> iterator" where
  "PosList1_end h p =
     (case matches_all_chunk1 p of
        Some a \<Rightarrow> matches_all_base_it \<lparr>chunk_id = chunk_id1 p, chunk_offset = Chunk_size (h a)\<rparr>
      | None \<Rightarrow> vector_base_it 0)"

text \<open>
  The second revision (line 488) has the same members and the same \<^verbatim>\<open>begin()\<close>; the
  vector branch of its \<^verbatim>\<open>end()\<close> returns \<^verbatim>\<open>Vector::end()\<close>.
\<close>

definition PosList2_end :: "chunk_store \<Rightarrow> PosList1 \<Rightarrow> iterator" where
  "PosList2_end h p =
     (case matches_all_chunk1 p of
        Some a \<Rightarrow> matches_all_base_it \<lparr>chunk_id = chunk_id1 p, chunk_offset = Chunk_size (h a)\<rparr>
      | None \<Rightarrow> vector_base_it (length (Vector1 p)))"

text \<open>
  Iterating from one iterator to another, \<^verbatim>\<open>for (; it != stop_it; ++it) visit(*it)\<close>: the
  RowIDs visited, in order. The loop need not end, so its result is optional.
\<close>

partial_function (option) iterate ::
  "RowID list \<Rightarrow> iterator \<Rightarrow> iterator \<Rightarrow> RowID list \<Rightarrow> (error + RowID list) option" where
  "iterate v it stop_it visited =
     (case iterator_operator_eq it stop_it of
        Inl e \<Rightarrow> Some (Inl e)
      | Inr stop \<Rightarrow>
          if stop then Some (Inr visited)
          else
            (case iterator_dereference v it of
               Inl e \<Rightarrow> Some (Inl e)
             | Inr r \<Rightarrow> iterate v (iterator_increment it) stop_it (visited @ [r])))"

definition PosList1_iterate :: "chunk_store \<Rightarrow> PosList1 \<Rightarrow> (error + RowID list) option" where
  "PosList1_iterate h p = iterate (Vector1 p) (PosList1_begin h p) (PosList1_end h p) []"

definition PosList2_iterate :: "chunk_store \<Rightarrow> PosList1 \<Rightarrow> (error + RowID list) option" where
  "PosList2_iterate h p = iterate (Vector1 p) (PosList1_begin h p) (PosList2_end h p) []"

section \<open>\<^verbatim>\<open>abstract_pos_list.hpp\<close>: the materialized PosList behind the interface\<close>

text \<open>
  \<^verbatim>\<open>class PosList : public AbstractPosList, private pmr_vector<RowID>\<close> (lines 71 to
  203 of \<^verbatim>\<open>src/lib/storage/abstract_pos_list.hpp\<close>): the vector and the advisory flag,
  no sentinel. It is called \<open>PosListA\<close> here to keep it apart from the PosList of
  \<^verbatim>\<open>pos_list.hpp\<close>.
\<close>

record PosListA =
  VectorA :: "RowID list"
  single_chunk_flagA :: bool

datatype MemoryUsageCalculationMode = Sampled | Full

text \<open>
  \<^verbatim>\<open>sizeof(RowID)\<close>: two 32-bit members. The sizes of the list objects themselves are
  fixed by the platform and not by the sources; the operations that report them take them
  as a parameter.
\<close>

definition sizeof_RowID :: nat where
  "sizeof_RowID = 8"

record object_sizes =
  sizeof_pointer :: nat
  sizeof_MatchesAllPosList :: nat
  sizeof_SingleChunkPosList :: nat

definition PosListA_init :: "RowID list \<Rightarrow> PosListA" where
  "PosListA_init init = \<lparr>VectorA = init, single_chunk_flagA = False\<rparr>"

definition PosListA_guarantee_single_chunk :: "PosListA \<Rightarrow> PosListA" where
  "PosListA_guarantee_single_chunk p = p\<lparr>single_chunk_flagA := True\<rparr>"

definition PosListA_size :: "PosListA \<Rightarrow> nat" where
  "PosListA_size p = length (VectorA p)"

definition PosListA_empty :: "PosListA \<Rightarrow> bool" where
  "PosListA_empty p = (VectorA p = [])"

definition PosListA_subscript :: "PosListA \<Rightarrow> nat \<Rightarrow> error + RowID" where
  "PosListA_subscript p n = Vector_at (VectorA p) n"

text \<open>The lambda inside \<^verbatim>\<open>references_single_chunk()\<close>: the exhaustive scan.\<close>

definition PosListA_scan :: "PosListA \<Rightarrow> bool" where
  "PosListA_scan p =
     (if PosListA_size p = 0 then True
      else list_all (\<lambda>row_id. chunk_id row_id = chunk_id (VectorA p ! 0)) (VectorA p))"

definition PosListA_references_single_chunk :: "bool \<Rightarrow> PosListA \<Rightarrow> error + bool" where
  "PosListA_references_single_chunk debug p =
     (if single_chunk_flagA p
      then DebugAssert debug (PosListA_scan p) (Inr (single_chunk_flagA p))
      else Inr (single_chunk_flagA p))"

definition PosListA_common_chunk_id :: "bool \<Rightarrow> PosListA \<Rightarrow> error + ChunkID" where
  "PosListA_common_chunk_id debug p =
     (case (if debug then PosListA_references_single_chunk debug p else Inr True) of
        Inl e \<Rightarrow> Inl e
      | Inr single \<Rightarrow>
          DebugAssert debug single
            (Assert (\<not> PosListA_empty p)
               (case PosListA_subscript p 0 of
                  Inl e \<Rightarrow> Inl e
                | Inr r \<Rightarrow> Inr (chunk_id r))))"

definition PosListA_memory_usage :: "MemoryUsageCalculationMode \<Rightarrow> PosListA \<Rightarrow> nat" where
  "PosListA_memory_usage mode p = PosListA_size p * sizeof_RowID"

text \<open>\<^verbatim>\<open>bool operator==(const PosList& other) const\<close>: the vectors are compared.\<close>

definition PosListA_operator_eq :: "PosListA \<Rightarrow> PosListA \<Rightarrow> bool" where
  "PosListA_operator_eq p other = (VectorA p = VectorA other)"

section \<open>MatchesAllPosList\<close>

text \<open>
  \<^verbatim>\<open>class MatchesAllPosList : public AbstractPosList\<close> (lines 8 to 58 of
  \<^verbatim>\<open>src/unnamed/part_002\<close>): a shared pointer to the chunk and the chunk's id.
\<close>

record MatchesAllPosList =
  common_chunk :: chunk_ptr
  common_chunk_id :: ChunkID

definition MatchesAllPosList_init :: "chunk_ptr \<Rightarrow> ChunkID \<Rightarrow> MatchesAllPosList" where
  "MatchesAllPosList_init chunk cid = \<lparr>common_chunk = chunk, common_chunk_id = cid\<rparr>"

definition MatchesAllPosList_references_single_chunk :: "MatchesAllPosList \<Rightarrow> bool" where
  "MatchesAllPosList_references_single_chunk m = True"

definition MatchesAllPosList_common_chunk_id :: "bool \<Rightarrow> MatchesAllPosList \<Rightarrow> error + ChunkID" where
  "MatchesAllPosList_common_chunk_id debug m =
     DebugAssert debug (common_chunk_id m \<noteq> INVALID_CHUNK_ID) (Inr (common_chunk_id m))"

definition MatchesAllPosList_subscript :: "bool \<Rightarrow> MatchesAllPosList \<Rightarrow> nat \<Rightarrow> error + RowID" where
  "MatchesAllPosList_subscript debug m n =
     DebugAssert debug (common_chunk_id m \<noteq> INVALID_CHUNK_ID)
       (Inr \<lparr>chunk_id = common_chunk_id m, chunk_offset = of_nat n\<rparr>)"

text \<open>\<^verbatim>\<open>_common_chunk->size()\<close>: a null pointer is dereferenced all the same.\<close>

definition MatchesAllPosList_size :: "chunk_store \<Rightarrow> MatchesAllPosList \<Rightarrow> error + nat" where
  "MatchesAllPosList_size h m =
     (case common_chunk m of
        None \<Rightarrow> Inl UndefinedBehaviour
      | Some a \<Rightarrow> Inr (unat (Chunk_size (h a))))"

definition MatchesAllPosList_empty :: "chunk_store \<Rightarrow> MatchesAllPosList \<Rightarrow> error + bool" where
  "MatchesAllPosList_empty h m =
     (case MatchesAllPosList_size h m of
        Inl e \<Rightarrow> Inl e
      | Inr n \<Rightarrow> Inr (n = 0))"

definition MatchesAllPosList_memory_usage ::
  "object_sizes \<Rightarrow> MemoryUsageCalculationMode \<Rightarrow> MatchesAllPosList \<Rightarrow> nat" where
  "MatchesAllPosList_memory_usage sizes mode m = sizeof_MatchesAllPosList sizes"

text \<open>\<^verbatim>\<open>operator==(const MatchesAllPosList* other)\<close>: the chunk pointers are compared.\<close>

definition MatchesAllPosList_operator_eq :: "MatchesAllPosList \<Rightarrow> MatchesAllPosList \<Rightarrow> bool" where
  "MatchesAllPosList_operator_eq m other = (common_chunk m = common_chunk other)"

section \<open>SingleChunkPosList\<close>

text \<open>
  \<^verbatim>\<open>class SingleChunkPosList final : public AbstractPosList\<close> (lines 1 to 61 of
  \<^verbatim>\<open>src/lib/storage/pos_lists/single_chunk_pos_list.hpp\<close>).

  Modelled from the spec: \<^verbatim>\<open>storage/index/abstract_index.hpp\<close> is not among the
  sources. \<^verbatim>\<open>AbstractIndex::Iterator\<close> is, in the spec's words, an "opaque forward
  iterator over an index's internal offset sequence": here the sequence the two iterators
  point into, and the position of each in it.
\<close>

record SingleChunkPosList =
  index_offsets :: "ChunkOffset list"
  range_begin :: nat
  range_end :: nat
  single_chunk_id :: ChunkID

text \<open>
  The constructor takes the chunk id; the iterators are public members that the producer
  sets afterwards.
\<close>

definition SingleChunkPosList_init :: "ChunkID \<Rightarrow> SingleChunkPosList" where
  "SingleChunkPosList_init chunkID =
     \<lparr>index_offsets = [], range_begin = 0, range_end = 0, single_chunk_id = chunkID\<rparr>"

definition SingleChunkPosList_empty :: "SingleChunkPosList \<Rightarrow> bool" where
  "SingleChunkPosList_empty p = (range_begin p = range_end p)"

text \<open>
  \<^verbatim>\<open>std::distance(range_begin, range_end)\<close> returned as \<^verbatim>\<open>size_t\<close>: a negative
  distance wraps around.
\<close>

definition SingleChunkPosList_size :: "SingleChunkPosList \<Rightarrow> nat" where
  "SingleChunkPosList_size p =
     (if range_begin p \<le> range_end p then range_end p - range_begin p
      else 2 ^ 64 - (range_begin p - range_end p))"

text \<open>Line 23: \<^verbatim>\<open>return sizeof(this);\<close>, where \<^verbatim>\<open>this\<close> is a pointer.\<close>

definition SingleChunkPosList_memory_usage ::
  "object_sizes \<Rightarrow> MemoryUsageCalculationMode \<Rightarrow> SingleChunkPosList \<Rightarrow> nat" where
  "SingleChunkPosList_memory_usage sizes mode p = sizeof_pointer sizes"

text \<open>
  The later revision of the same class (\<^verbatim>\<open>single_chunk_pos_list.cpp\<close>, found at lines
  44 to 72 of \<^verbatim>\<open>src/lib/storage/reference_segment.hpp\<close>):
  \<^verbatim>\<open>return sizeof(*this);\<close>.
\<close>

definition SingleChunkPosList2_memory_usage ::
  "object_sizes \<Rightarrow> MemoryUsageCalculationMode \<Rightarrow> SingleChunkPosList \<Rightarrow> nat" where
  "SingleChunkPosList2_memory_usage sizes mode p = sizeof_SingleChunkPosList sizes"

definition SingleChunkPosList_references_single_chunk :: "SingleChunkPosList \<Rightarrow> bool" where
  "SingleChunkPosList_references_single_chunk p = True"

definition SingleChunkPosList_common_chunk_id :: "SingleChunkPosList \<Rightarrow> ChunkID" where
  "SingleChunkPosList_common_chunk_id p = single_chunk_id p"

text \<open>
  \<^verbatim>\<open>RowID{_chunk_id, *(std::next(range_begin, n))}\<close>: the read is defined wherever the
  index still has an offset, inside the range or past its end.
\<close>

definition SingleChunkPosList_subscript :: "SingleChunkPosList \<Rightarrow> nat \<Rightarrow> error + RowID" where
  "SingleChunkPosList_subscript p n =
     (if range_begin p + n < length (index_offsets p)
      then Inr \<lparr>chunk_id = single_chunk_id p,
                chunk_offset = index_offsets p ! (range_begin p + n)\<rparr>
      else Inl UndefinedBehaviour)"

section \<open>Equality through the interface\<close>

text \<open>
  \<^verbatim>\<open>virtual bool operator==(...) const = 0\<close> of \<^verbatim>\<open>AbstractPosList\<close>, and the two
  classes that override it. \<^verbatim>\<open>MatchesAllPosList::operator==(const AbstractPosList*)\<close>
  (lines 37 to 40 of \<^verbatim>\<open>src/unnamed/part_002\<close>) is a stub; \<^verbatim>\<open>PosList::operator==(const
  AbstractPosList& other)\<close> (lines 187 to 189 of \<^verbatim>\<open>abstract_pos_list.hpp\<close>) hands the
  comparison back to \<open>other\<close>, again through the virtual call. A comparison that never
  returns has the value \<open>None\<close>.
\<close>

datatype AbstractPosList = AsPosList PosListA | AsMatchesAllPosList MatchesAllPosList

definition MatchesAllPosList_operator_eq_abstract ::
  "MatchesAllPosList \<Rightarrow> AbstractPosList \<Rightarrow> bool" where
  "MatchesAllPosList_operator_eq_abstract m other = False"

partial_function (option) AbstractPosList_operator_eq ::
  "AbstractPosList \<Rightarrow> AbstractPosList \<Rightarrow> bool option" where
  "AbstractPosList_operator_eq this other =
     (case this of
        AsPosList p \<Rightarrow> AbstractPosList_operator_eq other this
      | AsMatchesAllPosList m \<Rightarrow> Some (MatchesAllPosList_operator_eq_abstract m other))"

text \<open>
  What a list behind the interface denotes, in the spec's words (see
  \<open>logical_sequence\<close>); without a chunk a MatchesAllPosList denotes nothing.
\<close>

definition denoted_sequence :: "chunk_store \<Rightarrow> AbstractPosList \<Rightarrow> RowID list" where
  "denoted_sequence h l =
     (case l of
        AsPosList p \<Rightarrow> VectorA p
      | AsMatchesAllPosList m \<Rightarrow>
          (case common_chunk m of
             None \<Rightarrow> []
           | Some a \<Rightarrow>
               map (\<lambda>i. \<lparr>chunk_id = common_chunk_id m, chunk_offset = of_nat i\<rparr>)
                 [0..<unat (Chunk_size (h a))]))"

section \<open>The loops of \<^verbatim>\<open>pos_list.hpp\<close>\<close>

lemma foldl_update_prefix:
  "m \<le> length v \<Longrightarrow>
   foldl (\<lambda>w k. w[k := f k]) v [0..<m] = map f [0..<m] @ drop m v"
proof (induction m)
  case 0
  then show ?case by simp
next
  case (Suc m)
  then have "m < length v" by simp
  then have "(map f [0..<m] @ drop m v)[m := f m] = map f [0..<m] @ f m # drop (Suc m) v"
    by (simp add: list_update_append Cons_nth_drop_Suc [symmetric] )
  with Suc show ?case by simp
qed

lemma materialize_loop_eq:
  "length v = n \<Longrightarrow>
   materialize_loop c n v = map (\<lambda>i. \<lparr>chunk_id = c, chunk_offset = of_nat i\<rparr>) [0..<n]"
  unfolding materialize_loop_def by (simp add: foldl_update_prefix)

lemma length_Vector_resize: "length (Vector_resize n v) = n"
  by (simp add: Vector_resize_def)

lemma expected_loop_iff:
  "expected_loop e xs =
     (xs = map (\<lambda>i. e\<lparr>chunk_offset := chunk_offset e + of_nat i\<rparr>) [0..<length xs])"
proof (induction xs arbitrary: e)
  case Nil
  then show ?case by simp
next
  case (Cons x xs)
  have "map (\<lambda>i. e\<lparr>chunk_offset := chunk_offset e + of_nat i\<rparr>) [0..<length (x # xs)] =
        e # map (\<lambda>i. e\<lparr>chunk_offset := chunk_offset e + 1 + of_nat i\<rparr>) [0..<length xs]"
    by (simp add: upt_conv_Cons map_Suc_upt [symmetric] add.assoc del: upt_Suc)
  then show ?case using Cons.IH [of "e\<lparr>chunk_offset := chunk_offset e + 1\<rparr>"]
    by auto
qed


lemma logical_sequence_matches_all:
  "logical_sequence h (PosList_matches_all (Some a) c) =
     map (\<lambda>i. \<lparr>chunk_id = c, chunk_offset = of_nat i\<rparr>) [0..<unat (Chunk_size (h a))]"
  by (simp add: logical_sequence_def PosList_matches_all_def guarantee_single_chunk_def)

lemma logical_sequence_plain:
  "\<not> matches_complete_chunk p \<Longrightarrow> logical_sequence h p = Vector p"
  by (simp add: logical_sequence_def matches_complete_chunk_def)

lemma materialize_matches_all:
  assumes "debug \<longrightarrow> c \<noteq> INVALID_CHUNK_ID"
  shows "materialize debug h (PosList_matches_all (Some a) c) =
     Inr \<lparr>Vector = logical_sequence h (PosList_matches_all (Some a) c),
          matches_all_chunk = None, matches_all_chunk_id = INVALID_CHUNK_ID,
          single_chunk_flag = True\<rparr>"
proof -
  have "matches_all_chunk_id (PosList_matches_all (Some a) c) = c"
    and "matches_all_chunk (PosList_matches_all (Some a) c) = Some a"
    and "Vector (PosList_matches_all (Some a) c) = []"
    by (simp_all add: PosList_matches_all_def guarantee_single_chunk_def)
  moreover have "PosList_matches_all (Some a) c
       \<lparr>Vector := v, matches_all_chunk := None, matches_all_chunk_id := INVALID_CHUNK_ID\<rparr> =
       \<lparr>Vector = v, matches_all_chunk = None, matches_all_chunk_id = INVALID_CHUNK_ID,
        single_chunk_flag = True\<rparr>" for v
    by (simp add: PosList_matches_all_def guarantee_single_chunk_def)
  ultimately show ?thesis
    using assms
    by (auto simp add: materialize_def DebugAssert_def Assert_def logical_sequence_matches_all
        materialize_loop_eq length_Vector_resize)
qed

lemma common_chunk_id_release:
  assumes "0 < unat (Chunk_size (h a))"
  shows "PosList_common_chunk_id False h (PosList_matches_all (Some a) c) =
     Inr (c, PosList_matches_all (Some a) c)"
  using assms
  by (simp add: PosList_common_chunk_id_def DebugAssert_def Assert_def PosList_empty_def PosList_size_def
      matches_complete_chunk_def PosList_matches_all_def guarantee_single_chunk_def)

lemma common_chunk_id_debug:
  assumes "c \<noteq> INVALID_CHUNK_ID" and "0 < unat (Chunk_size (h a))"
  shows "PosList_common_chunk_id True h (PosList_matches_all (Some a) c) =
     Inr (c, \<lparr>Vector = logical_sequence h (PosList_matches_all (Some a) c),
          matches_all_chunk = None, matches_all_chunk_id = INVALID_CHUNK_ID,
          single_chunk_flag = True\<rparr>)"
proof -
  let ?p = "PosList_matches_all (Some a) c"
  let ?m = "\<lparr>Vector = logical_sequence h ?p,
          matches_all_chunk = None, matches_all_chunk_id = INVALID_CHUNK_ID,
          single_chunk_flag = True\<rparr>"
  have mat: "materialize_if_necessary True h ?p = Inr ?m"
    using materialize_matches_all [of True c h a] assms(1)
    by (simp add: materialize_if_necessary_def matches_complete_chunk_def
        PosList_matches_all_def guarantee_single_chunk_def)
  have nomat: "materialize_if_necessary True h ?m = Inr ?m"
    by (simp add: materialize_if_necessary_def matches_complete_chunk_def)
  have len: "length (logical_sequence h ?p) = unat (Chunk_size (h a))"
    by (simp add: logical_sequence_matches_all)
  have first: "Vector_at (logical_sequence h ?p) 0 = Inr \<lparr>chunk_id = c, chunk_offset = 0\<rparr>"
    using assms(2) by (simp add: Vector_at_def logical_sequence_matches_all)
  have sub0: "PosList_subscript True h ?p 0 = Inr (\<lparr>chunk_id = c, chunk_offset = 0\<rparr>, ?m)"
    by (simp add: PosList_subscript_def mat first)
  have sub1: "PosList_subscript True h ?m 0 = Inr (\<lparr>chunk_id = c, chunk_offset = 0\<rparr>, ?m)"
    by (simp add: PosList_subscript_def nomat first)
  have all: "list_all (\<lambda>row_id. chunk_id row_id = c) (logical_sequence h ?p)"
    by (simp add: logical_sequence_matches_all list_all_iff)
  have size_p: "PosList_size h ?p = unat (Chunk_size (h a))"
    by (simp add: PosList_size_def PosList_matches_all_def guarantee_single_chunk_def)
  have scan: "single_chunk_scan True h ?p = Inr (True, ?m)"
    using assms(2) all
    by (simp add: single_chunk_scan_def size_p sub0 PosList_cbegin_def PosList_cend_def nomat len)
  have flag: "single_chunk_flag ?p"
    by (simp add: PosList_matches_all_def guarantee_single_chunk_def)
  have refs: "PosList_references_single_chunk True h ?p = Inr (True, ?m)"
    by (simp add: PosList_references_single_chunk_def flag scan Assert_def DebugAssert_def
        matches_complete_chunk_def)
  have "\<not> PosList_empty h ?m"
    using assms(2) by (simp add: PosList_empty_def PosList_size_def logical_sequence_matches_all)
  then show ?thesis
    by (simp add: PosList_common_chunk_id_def refs DebugAssert_def Assert_def matches_complete_chunk_def sub1)
qed


lemma common_chunk_id_matches_all:
  assumes "debug \<longrightarrow> c \<noteq> INVALID_CHUNK_ID" and "0 < unat (Chunk_size (h a))"
  shows "\<exists>l. PosList_common_chunk_id debug h (PosList_matches_all (Some a) c) = Inr (c, l)"
proof (cases debug)
  case True
  with assms show ?thesis by (simp add: common_chunk_id_debug)
next
  case False
  with assms show ?thesis by (simp add: common_chunk_id_release)
qed

lemma matches_all_equal_to_materialized_iff:
  assumes "debug \<longrightarrow> c \<noteq> INVALID_CHUNK_ID" and "0 < unat (Chunk_size (h a))"
  shows "\<exists>l. matches_all_equal_to_materialized debug h (PosList_matches_all (Some a) c) v =
     Inr (logical_sequence h (PosList_matches_all (Some a) c) = v, l)"
proof -
  let ?p = "PosList_matches_all (Some a) c"
  have mcc: "matches_complete_chunk ?p"
    by (simp add: matches_complete_chunk_def PosList_matches_all_def guarantee_single_chunk_def)
  have size_p: "PosList_size h ?p = unat (Chunk_size (h a))"
    by (simp add: PosList_size_def PosList_matches_all_def guarantee_single_chunk_def)
  show ?thesis
  proof (cases "unat (Chunk_size (h a)) = length v")
    case False
    then have "logical_sequence h ?p \<noteq> v"
      by (auto simp add: logical_sequence_matches_all)
    with False show ?thesis
      by (simp add: matches_all_equal_to_materialized_def DebugAssert_def Assert_def mcc size_p)
  next
    case True
    obtain l where l: "PosList_common_chunk_id debug h ?p = Inr (c, l)"
      using common_chunk_id_matches_all [of debug c h a] assms by blast
    have "expected_loop \<lparr>chunk_id = c, chunk_offset = 0\<rparr> v = (logical_sequence h ?p = v)"
      using True by (subst expected_loop_iff) (auto simp add: logical_sequence_matches_all)
    with True show ?thesis
      by (simp add: matches_all_equal_to_materialized_def DebugAssert_def Assert_def mcc size_p l)
  qed
qed

section \<open>Equality of PosLists (\<^verbatim>\<open>pos_list.hpp\<close>, lines 862 to 895)\<close>

text \<open>
  Claim C1, as the code has it. \<^verbatim>\<open>operator==\<close> returns whether the two lists denote
  the same logical sequence of RowIDs whenever at most one of them is an unmaterialized
  matches-all list, and that one is over a chunk with at least one row (and, in a debug
  build, has a valid chunk id). When both are unmaterialized matches-all lists it returns
  whether both hold the same chunk object. In particular, for a chunk with \<open>k \<ge> 1\<close> rows
  the materialized list \<open>{c,0}, ..., {c,k-1}\<close> compares equal to the matches-all list over
  that chunk, and two matches-all lists over the same chunk object compare equal.
\<close>

theorem PosList_operator_eq_amended:
  "(\<not> matches_complete_chunk A \<and> \<not> matches_complete_chunk B \<longrightarrow>
      PosList_operator_eq debug h A B =
        Inr (logical_sequence h A = logical_sequence h B, A, B))
   \<and> ((debug \<longrightarrow> c \<noteq> INVALID_CHUNK_ID) \<and> 0 < unat (Chunk_size (h a))
        \<and> \<not> matches_complete_chunk B \<longrightarrow>
      (\<exists>M. PosList_operator_eq debug h (PosList_matches_all (Some a) c) B =
         Inr (logical_sequence h (PosList_matches_all (Some a) c) = logical_sequence h B, M, B))
      \<and> (\<exists>M. PosList_operator_eq debug h B (PosList_matches_all (Some a) c) =
         Inr (logical_sequence h B = logical_sequence h (PosList_matches_all (Some a) c), B, M)))
   \<and> ((debug \<longrightarrow> c \<noteq> INVALID_CHUNK_ID) \<and> 0 < unat (Chunk_size (h a)) \<longrightarrow>
      (\<exists>M. PosList_operator_eq debug h (PosList_matches_all (Some a) c)
              (PosList_init (map (\<lambda>i. \<lparr>chunk_id = c, chunk_offset = of_nat i\<rparr>)
                 [0..<unat (Chunk_size (h a))])) =
         Inr (True, M, PosList_init (map (\<lambda>i. \<lparr>chunk_id = c, chunk_offset = of_nat i\<rparr>)
                 [0..<unat (Chunk_size (h a))]))))
   \<and> PosList_operator_eq debug h (PosList_matches_all (Some a) c) (PosList_matches_all (Some b) d) =
        Inr (a = b, PosList_matches_all (Some a) c, PosList_matches_all (Some b) d)"
proof -
  let ?p = "PosList_matches_all (Some a) c"
  have mcc: "matches_complete_chunk (PosList_matches_all (Some x) y)" for x y
    by (simp add: matches_complete_chunk_def PosList_matches_all_def guarantee_single_chunk_def)
  have plain: "PosList_operator_eq debug h A B =
        Inr (logical_sequence h A = logical_sequence h B, A, B)"
    if "\<not> matches_complete_chunk A" and "\<not> matches_complete_chunk B"
    using that by (simp add: PosList_operator_eq_def logical_sequence_plain)
  have mixed: "(\<exists>M. PosList_operator_eq debug h ?p B' =
         Inr (logical_sequence h ?p = logical_sequence h B', M, B'))
      \<and> (\<exists>M. PosList_operator_eq debug h B' ?p =
         Inr (logical_sequence h B' = logical_sequence h ?p, B', M))"
    if ok: "debug \<longrightarrow> c \<noteq> INVALID_CHUNK_ID" "0 < unat (Chunk_size (h a))"
      and B: "\<not> matches_complete_chunk B'" for B'
  proof -
    obtain l where l: "matches_all_equal_to_materialized debug h ?p (Vector B') =
        Inr (logical_sequence h ?p = Vector B', l)"
      using matches_all_equal_to_materialized_iff [of debug c h a "Vector B'"] ok by blast
    have "PosList_operator_eq debug h ?p B' =
        Inr (logical_sequence h ?p = logical_sequence h B', l, B')"
      using B by (simp add: PosList_operator_eq_def mcc l logical_sequence_plain)
    moreover have "PosList_operator_eq debug h B' ?p =
        Inr (logical_sequence h B' = logical_sequence h ?p, B', l)"
      using B by (auto simp add: PosList_operator_eq_def mcc l logical_sequence_plain)
    ultimately show ?thesis by blast
  qed
  have init: "\<not> matches_complete_chunk (PosList_init xs)" for xs
    by (simp add: matches_complete_chunk_def PosList_init_def)
  have seq_init: "logical_sequence h (PosList_init xs) = xs" for xs
    by (simp add: logical_sequence_def PosList_init_def)
  have roundtrip: "\<exists>M. PosList_operator_eq debug h ?p
              (PosList_init (map (\<lambda>i. \<lparr>chunk_id = c, chunk_offset = of_nat i\<rparr>)
                 [0..<unat (Chunk_size (h a))])) =
         Inr (True, M, PosList_init (map (\<lambda>i. \<lparr>chunk_id = c, chunk_offset = of_nat i\<rparr>)
                 [0..<unat (Chunk_size (h a))]))"
    if ok: "debug \<longrightarrow> c \<noteq> INVALID_CHUNK_ID" "0 < unat (Chunk_size (h a))"
    using mixed [OF ok init, of "map (\<lambda>i. \<lparr>chunk_id = c, chunk_offset = of_nat i\<rparr>) [0..<unat (Chunk_size (h a))]"]
    by (simp add: seq_init logical_sequence_matches_all)
  have both: "PosList_operator_eq debug h ?p (PosList_matches_all (Some b) d) =
        Inr (a = b, ?p, PosList_matches_all (Some b) d)"
    by (simp add: PosList_operator_eq_def mcc)
       (simp add: PosList_matches_all_def guarantee_single_chunk_def)
  from plain mixed roundtrip both show ?thesis by blast
qed

text \<open>
  The theorem at a debug build and a chunk of three rows at address 5 with id 2: two
  plain lists, the round trip, a plain list that differs, and the list against itself.
\<close>

theorem PosList_operator_eq_witness:
  "\<not> matches_complete_chunk (PosList_init [\<lparr>chunk_id = 0, chunk_offset = 0\<rparr>])
   \<and> (2 :: ChunkID) \<noteq> INVALID_CHUNK_ID
   \<and> 0 < unat (Chunk_size ((\<lambda>_. \<lparr>row_count = 3\<rparr>) (5 :: nat)))
   \<and> PosList_operator_eq True (\<lambda>_. \<lparr>row_count = 3\<rparr>)
        (PosList_init [\<lparr>chunk_id = 0, chunk_offset = 0\<rparr>])
        (PosList_init [\<lparr>chunk_id = 0, chunk_offset = 0\<rparr>]) =
       Inr (True, PosList_init [\<lparr>chunk_id = 0, chunk_offset = 0\<rparr>],
            PosList_init [\<lparr>chunk_id = 0, chunk_offset = 0\<rparr>])
   \<and> (\<exists>M. PosList_operator_eq True (\<lambda>_. \<lparr>row_count = 3\<rparr>) (PosList_matches_all (Some 5) 2)
          (PosList_init [\<lparr>chunk_id = 2, chunk_offset = 0\<rparr>, \<lparr>chunk_id = 2, chunk_offset = 1\<rparr>,
             \<lparr>chunk_id = 2, chunk_offset = 2\<rparr>]) =
        Inr (True, M,
          PosList_init [\<lparr>chunk_id = 2, chunk_offset = 0\<rparr>, \<lparr>chunk_id = 2, chunk_offset = 1\<rparr>,
             \<lparr>chunk_id = 2, chunk_offset = 2\<rparr>]))
   \<and> (\<exists>M. PosList_operator_eq True (\<lambda>_. \<lparr>row_count = 3\<rparr>) (PosList_matches_all (Some 5) 2)
          (PosList_init [\<lparr>chunk_id = 0, chunk_offset = 0\<rparr>]) =
        Inr (False, M, PosList_init [\<lparr>chunk_id = 0, chunk_offset = 0\<rparr>]))
   \<and> PosList_operator_eq True (\<lambda>_. \<lparr>row_count = 3\<rparr>) (PosList_matches_all (Some 5) 2)
        (PosList_matches_all (Some 5) 2) =
       Inr (True, PosList_matches_all (Some 5) 2, PosList_matches_all (Some 5) 2)"
proof -
  have plain: "\<not> matches_complete_chunk (PosList_init [\<lparr>chunk_id = 0, chunk_offset = 0\<rparr>])"
    by (simp add: matches_complete_chunk_def PosList_init_def)
  have valid: "(2 :: ChunkID) \<noteq> INVALID_CHUNK_ID"
    by (simp add: INVALID_CHUNK_ID_def)
  have rows: "0 < unat (Chunk_size ((\<lambda>_. \<lparr>row_count = 3\<rparr>) (5 :: nat)))"
    by (simp add: Chunk_size_def)
  have three: "[0..<unat (Chunk_size \<lparr>row_count = 3\<rparr>)] = [0, 1, 2]"
    by (simp add: Chunk_size_def upt_conv_Cons)
  have seq: "logical_sequence (\<lambda>_. \<lparr>row_count = 3\<rparr>) (PosList_matches_all (Some 5) 2) =
      [\<lparr>chunk_id = 2, chunk_offset = 0\<rparr>, \<lparr>chunk_id = 2, chunk_offset = 1\<rparr>,
       \<lparr>chunk_id = 2, chunk_offset = 2\<rparr>]"
    by (simp add: logical_sequence_def PosList_matches_all_def guarantee_single_chunk_def three)
  have seq0: "logical_sequence (\<lambda>_. \<lparr>row_count = 3\<rparr>)
      (PosList_init [\<lparr>chunk_id = 0, chunk_offset = 0\<rparr>]) = [\<lparr>chunk_id = 0, chunk_offset = 0\<rparr>]"
    by (simp add: logical_sequence_def PosList_init_def)
  show ?thesis
    using plain valid rows
      PosList_operator_eq_amended [where debug = True and h = "\<lambda>_. \<lparr>row_count = 3\<rparr>"
        and A = "PosList_init [\<lparr>chunk_id = 0, chunk_offset = 0\<rparr>]"
        and B = "PosList_init [\<lparr>chunk_id = 0, chunk_offset = 0\<rparr>]"
        and a = 5 and b = 5 and c = 2 and d = 2]
    by (simp add: seq seq0 three)
qed

text \<open>
  Two matches-all lists over different chunk objects that both have three rows and the
  id 0 denote the same sequence and compare unequal; and the matches-all list over a
  chunk without rows cannot be compared with the empty list it denotes, because
  \<^verbatim>\<open>common_chunk_id()\<close> asserts that the list is not empty.
\<close>

theorem PosList_operator_eq_counterexample:
  "logical_sequence (\<lambda>_. \<lparr>row_count = 3\<rparr>) (PosList_matches_all (Some 5) 0) =
     logical_sequence (\<lambda>_. \<lparr>row_count = 3\<rparr>) (PosList_matches_all (Some 6) 0)
   \<and> PosList_operator_eq False (\<lambda>_. \<lparr>row_count = 3\<rparr>)
        (PosList_matches_all (Some 5) 0) (PosList_matches_all (Some 6) 0) =
       Inr (False, PosList_matches_all (Some 5) 0, PosList_matches_all (Some 6) 0)
   \<and> logical_sequence (\<lambda>_. \<lparr>row_count = 0\<rparr>) (PosList_matches_all (Some 5) 0) =
     logical_sequence (\<lambda>_. \<lparr>row_count = 0\<rparr>) (PosList_init [])
   \<and> PosList_operator_eq False (\<lambda>_. \<lparr>row_count = 0\<rparr>)
        (PosList_matches_all (Some 5) 0) (PosList_init []) = Inl AssertionFailed"
  by (simp add: logical_sequence_def PosList_operator_eq_def matches_complete_chunk_def
      PosList_matches_all_def guarantee_single_chunk_def PosList_init_def Chunk_size_def
      matches_all_equal_to_materialized_def DebugAssert_def Assert_def PosList_size_def
      PosList_common_chunk_id_def PosList_empty_def)

section \<open>Equality through the interface (\<^verbatim>\<open>abstract_pos_list.hpp\<close>, \<^verbatim>\<open>part_002\<close>)\<close>

text \<open>
  A comparison through the interface returns only if one side is a MatchesAllPosList:
  between two materialized lists each side hands the call to the other, forever.
\<close>

lemma AbstractPosList_operator_eq_returns:
  assumes "AbstractPosList_operator_eq x y = Some b"
  shows "(\<exists>m. x = AsMatchesAllPosList m) \<or> (\<exists>m. y = AsMatchesAllPosList m)"
proof (rule AbstractPosList_operator_eq.raw_induct
    [where P = "\<lambda>x y b. (\<exists>m. x = AsMatchesAllPosList m) \<or> (\<exists>m. y = AsMatchesAllPosList m)",
     OF _ assms])
  fix eq x' y' b'
  assume IH: "\<And>x y b. eq x y = Some b \<Longrightarrow>
      (\<exists>m. x = AsMatchesAllPosList m) \<or> (\<exists>m. y = AsMatchesAllPosList m)"
    and step: "(case x' of AsPosList p \<Rightarrow> eq y' x'
      | AsMatchesAllPosList m \<Rightarrow> Some (MatchesAllPosList_operator_eq_abstract m y')) = Some b'"
  show "(\<exists>m. x' = AsMatchesAllPosList m) \<or> (\<exists>m. y' = AsMatchesAllPosList m)"
  proof (cases x')
    case (AsPosList p)
    with step have "eq y' x' = Some b'" by simp
    from IH [OF this] show ?thesis by blast
  next
    case (AsMatchesAllPosList m)
    then show ?thesis by blast
  qed
qed

lemma PosListA_operator_eq_abstract_diverges:
  "AbstractPosList_operator_eq (AsPosList p) (AsPosList q) = None"
proof (cases "AbstractPosList_operator_eq (AsPosList p) (AsPosList q)")
  case None
  then show ?thesis .
next
  case (Some b)
  from AbstractPosList_operator_eq_returns [OF Some] show ?thesis by simp
qed

text \<open>
  Claim C2 says that equality is symmetric across representations and true for any two
  lists that denote the same logical sequence. What the code does: the MatchesAllPosList
  over a chunk of three rows with id 0 and the materialized list \<open>{0,0}, {0,1}, {0,2}\<close>
  denote the same sequence, and the comparison through the interface answers false in
  either order; the MatchesAllPosList compared with itself answers false; a materialized
  list compared with itself through the interface never answers.
\<close>

theorem MatchesAllPosList_operator_eq_is_a_stub:
  "denoted_sequence (\<lambda>_. \<lparr>row_count = 3\<rparr>) (AsMatchesAllPosList (MatchesAllPosList_init (Some 5) 0)) =
     denoted_sequence (\<lambda>_. \<lparr>row_count = 3\<rparr>)
       (AsPosList (PosListA_init [\<lparr>chunk_id = 0, chunk_offset = 0\<rparr>,
          \<lparr>chunk_id = 0, chunk_offset = 1\<rparr>, \<lparr>chunk_id = 0, chunk_offset = 2\<rparr>]))
   \<and> AbstractPosList_operator_eq (AsMatchesAllPosList (MatchesAllPosList_init (Some 5) 0))
       (AsPosList (PosListA_init [\<lparr>chunk_id = 0, chunk_offset = 0\<rparr>,
          \<lparr>chunk_id = 0, chunk_offset = 1\<rparr>, \<lparr>chunk_id = 0, chunk_offset = 2\<rparr>])) = Some False
   \<and> AbstractPosList_operator_eq
       (AsPosList (PosListA_init [\<lparr>chunk_id = 0, chunk_offset = 0\<rparr>,
          \<lparr>chunk_id = 0, chunk_offset = 1\<rparr>, \<lparr>chunk_id = 0, chunk_offset = 2\<rparr>]))
       (AsMatchesAllPosList (MatchesAllPosList_init (Some 5) 0)) = Some False
   \<and> AbstractPosList_operator_eq (AsMatchesAllPosList (MatchesAllPosList_init (Some 5) 0))
       (AsMatchesAllPosList (MatchesAllPosList_init (Some 5) 0)) = Some False
   \<and> AbstractPosList_operator_eq
       (AsPosList (PosListA_init [\<lparr>chunk_id = 0, chunk_offset = 0\<rparr>]))
       (AsPosList (PosListA_init [\<lparr>chunk_id = 0, chunk_offset = 0\<rparr>])) = None"
  by (simp add: PosListA_operator_eq_abstract_diverges)
     (simp add: AbstractPosList_operator_eq.simps MatchesAllPosList_operator_eq_abstract_def
      denoted_sequence_def MatchesAllPosList_init_def PosListA_init_def Chunk_size_def
      upt_conv_Cons)

section \<open>Indexed access and \<^verbatim>\<open>common_chunk_id\<close>\<close>

text \<open>
  Claim C3, as the code has it. No \<^verbatim>\<open>operator[]\<close> compares its index with
  \<^verbatim>\<open>size()\<close>. A MatchesAllPosList returns \<open>{c, n}\<close> (the index cut to 32 bits) for
  every index \<open>n\<close>, also \<open>n \<ge> size()\<close>; in a debug build it asserts only that its chunk
  id is valid. The materialized PosList returns element \<open>n\<close> for \<open>n < size()\<close>, and reads
  past its vector without a check otherwise. The SingleChunkPosList reads the index's
  offset at \<open>range_begin + n\<close> wherever the index has one, inside its range or not, and
  reads past the index without a check otherwise.
\<close>

theorem subscript_is_unchecked:
  "((debug \<longrightarrow> common_chunk_id m \<noteq> INVALID_CHUNK_ID) \<longrightarrow>
      MatchesAllPosList_subscript debug m n =
        Inr \<lparr>chunk_id = common_chunk_id m, chunk_offset = of_nat n\<rparr>)
   \<and> (n < PosListA_size p \<longrightarrow> PosListA_subscript p n = Inr (VectorA p ! n))
   \<and> (PosListA_size p \<le> n \<longrightarrow> PosListA_subscript p n = Inl UndefinedBehaviour)
   \<and> (range_begin s + n < length (index_offsets s) \<longrightarrow>
        SingleChunkPosList_subscript s n =
          Inr \<lparr>chunk_id = single_chunk_id s, chunk_offset = index_offsets s ! (range_begin s + n)\<rparr>)
   \<and> (length (index_offsets s) \<le> range_begin s + n \<longrightarrow>
        SingleChunkPosList_subscript s n = Inl UndefinedBehaviour)"
  by (simp add: MatchesAllPosList_subscript_def DebugAssert_def Assert_def PosListA_subscript_def
      PosListA_size_def Vector_at_def SingleChunkPosList_subscript_def)

text \<open>
  The theorem at a MatchesAllPosList with id 2 and index 9, at a materialized list of
  three elements with the indices 2 and 3, and at the range of Scenario E (chunk 4, the
  seven offsets 10 to 16) with the indices 6 and 7.
\<close>

theorem subscript_is_unchecked_witness:
  "common_chunk_id (MatchesAllPosList_init (Some 7) 2) \<noteq> INVALID_CHUNK_ID
   \<and> MatchesAllPosList_subscript True (MatchesAllPosList_init (Some 7) 2) 9 =
       Inr \<lparr>chunk_id = 2, chunk_offset = 9\<rparr>
   \<and> 2 < PosListA_size (PosListA_init [\<lparr>chunk_id = 0, chunk_offset = 0\<rparr>, \<lparr>chunk_id = 0, chunk_offset = 1\<rparr>, \<lparr>chunk_id = 0, chunk_offset = 4\<rparr>])
   \<and> PosListA_subscript (PosListA_init [\<lparr>chunk_id = 0, chunk_offset = 0\<rparr>, \<lparr>chunk_id = 0, chunk_offset = 1\<rparr>, \<lparr>chunk_id = 0, chunk_offset = 4\<rparr>]) 2 =
       Inr \<lparr>chunk_id = 0, chunk_offset = 4\<rparr>
   \<and> PosListA_size (PosListA_init [\<lparr>chunk_id = 0, chunk_offset = 0\<rparr>, \<lparr>chunk_id = 0, chunk_offset = 1\<rparr>, \<lparr>chunk_id = 0, chunk_offset = 4\<rparr>]) \<le> 3
   \<and> PosListA_subscript (PosListA_init [\<lparr>chunk_id = 0, chunk_offset = 0\<rparr>, \<lparr>chunk_id = 0, chunk_offset = 1\<rparr>, \<lparr>chunk_id = 0, chunk_offset = 4\<rparr>]) 3 =
       Inl UndefinedBehaviour
   \<and> SingleChunkPosList_size \<lparr>index_offsets = [10, 11, 12, 13, 14, 15, 16],
        range_begin = 0, range_end = 7, single_chunk_id = 4\<rparr> = 7
   \<and> SingleChunkPosList_subscript \<lparr>index_offsets = [10, 11, 12, 13, 14, 15, 16],
        range_begin = 0, range_end = 7, single_chunk_id = 4\<rparr> 6 = Inr \<lparr>chunk_id = 4, chunk_offset = 16\<rparr>
   \<and> SingleChunkPosList_subscript \<lparr>index_offsets = [10, 11, 12, 13, 14, 15, 16],
        range_begin = 0, range_end = 7, single_chunk_id = 4\<rparr> 7 = Inl UndefinedBehaviour"
proof -
  have valid: "common_chunk_id (MatchesAllPosList_init (Some 7) 2) \<noteq> INVALID_CHUNK_ID"
    by (simp add: MatchesAllPosList_init_def INVALID_CHUNK_ID_def)
  have cid: "common_chunk_id (MatchesAllPosList_init (Some 7) 2) = 2"
    by (simp add: MatchesAllPosList_init_def)
  let ?p = "PosListA_init [\<lparr>chunk_id = 0, chunk_offset = 0\<rparr>, \<lparr>chunk_id = 0, chunk_offset = 1\<rparr>, \<lparr>chunk_id = 0, chunk_offset = 4\<rparr>]"
  let ?s = "\<lparr>index_offsets = [10, 11, 12, 13, 14, 15, 16 :: ChunkOffset],
        range_begin = 0, range_end = 7, single_chunk_id = 4 :: ChunkID\<rparr>"
  have size_p: "PosListA_size ?p = 3"
    by (simp add: PosListA_size_def PosListA_init_def)
  have vec_p: "VectorA ?p ! 2 = \<lparr>chunk_id = 0, chunk_offset = 4\<rparr>"
    by (simp add: PosListA_init_def)
  have size_s: "SingleChunkPosList_size ?s = 7"
    by (simp add: SingleChunkPosList_size_def)
  from subscript_is_unchecked [where debug = True and m = "MatchesAllPosList_init (Some 7) 2"
      and n = 9]
  have a: "MatchesAllPosList_subscript True (MatchesAllPosList_init (Some 7) 2) 9 =
       Inr \<lparr>chunk_id = 2, chunk_offset = 9\<rparr>"
    using valid by (simp add: cid)
  from subscript_is_unchecked [where p = ?p and n = 2]
  have b: "PosListA_subscript ?p 2 = Inr \<lparr>chunk_id = 0, chunk_offset = 4\<rparr>"
    by (simp add: size_p vec_p)
  from subscript_is_unchecked [where p = ?p and n = 3]
  have c: "PosListA_subscript ?p 3 = Inl UndefinedBehaviour"
    by (simp add: size_p)
  from subscript_is_unchecked [where s = ?s and n = 6]
  have d: "SingleChunkPosList_subscript ?s 6 = Inr \<lparr>chunk_id = 4, chunk_offset = 16\<rparr>"
    by simp
  from subscript_is_unchecked [where s = ?s and n = 7]
  have e: "SingleChunkPosList_subscript ?s 7 = Inl UndefinedBehaviour"
    by simp
  from valid a b c d e size_p size_s show ?thesis by simp
qed

text \<open>
  Past the end, a value and no error: a MatchesAllPosList over five rows at index 7, and
  a range of seven offsets, inside an index that holds ten, at index 7.
\<close>

theorem subscript_past_the_end_counterexample:
  "MatchesAllPosList_size (\<lambda>_. \<lparr>row_count = 5\<rparr>) (MatchesAllPosList_init (Some 7) 2) = Inr 5
   \<and> MatchesAllPosList_subscript True (MatchesAllPosList_init (Some 7) 2) 7 =
       Inr \<lparr>chunk_id = 2, chunk_offset = 7\<rparr>
   \<and> SingleChunkPosList_size \<lparr>index_offsets = [10, 11, 12, 13, 14, 15, 16, 17, 18, 19],
        range_begin = 0, range_end = 7, single_chunk_id = 4\<rparr> = 7
   \<and> SingleChunkPosList_subscript \<lparr>index_offsets = [10, 11, 12, 13, 14, 15, 16, 17, 18, 19],
        range_begin = 0, range_end = 7, single_chunk_id = 4\<rparr> 7 = Inr \<lparr>chunk_id = 4, chunk_offset = 17\<rparr>"
  by (simp add: MatchesAllPosList_size_def MatchesAllPosList_init_def Chunk_size_def
      MatchesAllPosList_subscript_def DebugAssert_def Assert_def INVALID_CHUNK_ID_def
      SingleChunkPosList_size_def SingleChunkPosList_subscript_def)

text \<open>
  Claim C4, as the code has it. \<^verbatim>\<open>common_chunk_id()\<close> of a materialized PosList fails
  its assertion when the list is empty, in every build and whether or not the guarantee
  is set; in a debug build it also fails when \<^verbatim>\<open>references_single_chunk()\<close> does not
  return true. In a release build that second precondition is not checked: a list that is
  not empty returns the chunk id of its first element. \<^verbatim>\<open>common_chunk_id()\<close> of a
  SingleChunkPosList checks nothing and returns the chunk id it was built with.
\<close>

theorem common_chunk_id_preconditions:
  "(PosListA_empty p \<longrightarrow> PosListA_common_chunk_id debug p = Inl AssertionFailed)
   \<and> (debug \<and> PosListA_references_single_chunk debug p \<noteq> Inr True \<longrightarrow>
        PosListA_common_chunk_id debug p = Inl AssertionFailed)
   \<and> (\<not> debug \<and> \<not> PosListA_empty p \<longrightarrow>
        PosListA_common_chunk_id debug p = Inr (chunk_id (VectorA p ! 0)))
   \<and> (debug \<and> PosListA_references_single_chunk debug p = Inr True \<and> \<not> PosListA_empty p \<longrightarrow>
        PosListA_common_chunk_id debug p = Inr (chunk_id (VectorA p ! 0)))
   \<and> SingleChunkPosList_common_chunk_id s = single_chunk_id s"
proof -
  have e: "PosListA_common_chunk_id debug p = Inl AssertionFailed" if "PosListA_empty p"
    using that
    by (simp add: PosListA_common_chunk_id_def PosListA_references_single_chunk_def
        PosListA_scan_def PosListA_size_def PosListA_empty_def DebugAssert_def Assert_def)
  have d: "PosListA_common_chunk_id debug p = Inl AssertionFailed"
    if "debug" and "PosListA_references_single_chunk debug p \<noteq> Inr True"
    using that
    by (auto simp add: PosListA_common_chunk_id_def PosListA_references_single_chunk_def
        DebugAssert_def Assert_def split: if_splits)
  have r: "PosListA_common_chunk_id debug p = Inr (chunk_id (VectorA p ! 0))"
    if "\<not> debug" and "\<not> PosListA_empty p"
    using that
    by (simp add: PosListA_common_chunk_id_def PosListA_empty_def DebugAssert_def Assert_def
        PosListA_subscript_def Vector_at_def)
  have g: "PosListA_common_chunk_id debug p = Inr (chunk_id (VectorA p ! 0))"
    if "debug" and "PosListA_references_single_chunk debug p = Inr True" and "\<not> PosListA_empty p"
    using that
    by (simp add: PosListA_common_chunk_id_def PosListA_empty_def DebugAssert_def Assert_def
        PosListA_subscript_def Vector_at_def)
  from e d r g show ?thesis
    by (auto simp add: SingleChunkPosList_common_chunk_id_def)
qed

text \<open>
  The theorem at the empty list with the guarantee set (Scenario D), at the list
  \<open>{0,0}, {0,1}, {1,0}\<close> without the guarantee (Scenario B) in both builds, at the list
  \<open>{0,0}, {0,1}, {0,2}\<close> with the guarantee (Scenario C), and at a SingleChunkPosList.
\<close>

theorem common_chunk_id_preconditions_witness:
  "PosListA_empty (PosListA_guarantee_single_chunk (PosListA_init []))
   \<and> PosListA_common_chunk_id True (PosListA_guarantee_single_chunk (PosListA_init [])) =
       Inl AssertionFailed
   \<and> PosListA_references_single_chunk True
        (PosListA_init [\<lparr>chunk_id = 0, chunk_offset = 0\<rparr>, \<lparr>chunk_id = 0, chunk_offset = 1\<rparr>,
           \<lparr>chunk_id = 1, chunk_offset = 0\<rparr>]) \<noteq> Inr True
   \<and> PosListA_common_chunk_id True
        (PosListA_init [\<lparr>chunk_id = 0, chunk_offset = 0\<rparr>, \<lparr>chunk_id = 0, chunk_offset = 1\<rparr>,
           \<lparr>chunk_id = 1, chunk_offset = 0\<rparr>]) = Inl AssertionFailed
   \<and> \<not> PosListA_empty
        (PosListA_init [\<lparr>chunk_id = 0, chunk_offset = 0\<rparr>, \<lparr>chunk_id = 0, chunk_offset = 1\<rparr>,
           \<lparr>chunk_id = 1, chunk_offset = 0\<rparr>])
   \<and> PosListA_common_chunk_id False
        (PosListA_init [\<lparr>chunk_id = 0, chunk_offset = 0\<rparr>, \<lparr>chunk_id = 0, chunk_offset = 1\<rparr>,
           \<lparr>chunk_id = 1, chunk_offset = 0\<rparr>]) = Inr 0
   \<and> PosListA_references_single_chunk True
        (PosListA_guarantee_single_chunk
          (PosListA_init [\<lparr>chunk_id = 0, chunk_offset = 0\<rparr>, \<lparr>chunk_id = 0, chunk_offset = 1\<rparr>,
             \<lparr>chunk_id = 0, chunk_offset = 2\<rparr>])) = Inr True
   \<and> PosListA_common_chunk_id True
        (PosListA_guarantee_single_chunk
          (PosListA_init [\<lparr>chunk_id = 0, chunk_offset = 0\<rparr>, \<lparr>chunk_id = 0, chunk_offset = 1\<rparr>,
             \<lparr>chunk_id = 0, chunk_offset = 2\<rparr>])) = Inr 0
   \<and> SingleChunkPosList_common_chunk_id (SingleChunkPosList_init 4) = 4"
proof -
  let ?empty = "PosListA_guarantee_single_chunk (PosListA_init [])"
  let ?two = "PosListA_init [\<lparr>chunk_id = 0, chunk_offset = 0\<rparr>, \<lparr>chunk_id = 0, chunk_offset = 1\<rparr>,
           \<lparr>chunk_id = 1, chunk_offset = 0\<rparr>]"
  let ?one = "PosListA_guarantee_single_chunk
          (PosListA_init [\<lparr>chunk_id = 0, chunk_offset = 0\<rparr>, \<lparr>chunk_id = 0, chunk_offset = 1\<rparr>,
             \<lparr>chunk_id = 0, chunk_offset = 2\<rparr>])"
  have h1: "PosListA_empty ?empty"
    by (simp add: PosListA_empty_def PosListA_guarantee_single_chunk_def PosListA_init_def)
  have h2: "PosListA_references_single_chunk True ?two \<noteq> Inr True"
    by (simp add: PosListA_references_single_chunk_def PosListA_init_def)
  have h3: "\<not> PosListA_empty ?two"
    by (simp add: PosListA_empty_def PosListA_init_def)
  have h4: "PosListA_references_single_chunk True ?one = Inr True"
    by (simp add: PosListA_references_single_chunk_def PosListA_guarantee_single_chunk_def
        PosListA_init_def PosListA_scan_def PosListA_size_def DebugAssert_def Assert_def)
  have h5: "\<not> PosListA_empty ?one"
    by (simp add: PosListA_empty_def PosListA_guarantee_single_chunk_def PosListA_init_def)
  have v2: "chunk_id (VectorA ?two ! 0) = 0"
    by (simp add: PosListA_init_def)
  have v1: "chunk_id (VectorA ?one ! 0) = 0"
    by (simp add: PosListA_guarantee_single_chunk_def PosListA_init_def)
  have s: "single_chunk_id (SingleChunkPosList_init 4) = 4"
    by (simp add: SingleChunkPosList_init_def)
  from common_chunk_id_preconditions [where p = ?empty and debug = True] h1
  have a: "PosListA_common_chunk_id True ?empty = Inl AssertionFailed" by simp
  from common_chunk_id_preconditions [where p = ?two and debug = True] h2
  have b: "PosListA_common_chunk_id True ?two = Inl AssertionFailed" by simp
  from common_chunk_id_preconditions [where p = ?two and debug = False] h3
  have c: "PosListA_common_chunk_id False ?two = Inr 0" by (simp add: v2)
  from common_chunk_id_preconditions [where p = ?one and debug = True] h4 h5
  have d: "PosListA_common_chunk_id True ?one = Inr 0" by (simp add: v1)
  from common_chunk_id_preconditions [where s = "SingleChunkPosList_init 4"]
  have e: "SingleChunkPosList_common_chunk_id (SingleChunkPosList_init 4) = 4" by (simp add: s)
  from h1 h2 h3 h4 a b c d e show ?thesis by simp
qed

text \<open>
  No precondition error: the SingleChunkPosList as constructed, whose range is empty,
  returns its chunk id; and in a release build the list \<open>{0,0}, {1,0}\<close>, for which
  \<^verbatim>\<open>references_single_chunk()\<close> is false, returns 0.
\<close>

theorem common_chunk_id_counterexample:
  "SingleChunkPosList_empty (SingleChunkPosList_init 4)
   \<and> SingleChunkPosList_size (SingleChunkPosList_init 4) = 0
   \<and> SingleChunkPosList_common_chunk_id (SingleChunkPosList_init 4) = 4
   \<and> PosListA_references_single_chunk False
        (PosListA_init [\<lparr>chunk_id = 0, chunk_offset = 0\<rparr>, \<lparr>chunk_id = 1, chunk_offset = 0\<rparr>]) = Inr False
   \<and> PosListA_common_chunk_id False
        (PosListA_init [\<lparr>chunk_id = 0, chunk_offset = 0\<rparr>, \<lparr>chunk_id = 1, chunk_offset = 0\<rparr>]) = Inr 0"
  by (simp add: SingleChunkPosList_empty_def SingleChunkPosList_size_def SingleChunkPosList_init_def
      SingleChunkPosList_common_chunk_id_def PosListA_references_single_chunk_def
      PosListA_init_def PosListA_common_chunk_id_def PosListA_empty_def DebugAssert_def Assert_def
      PosListA_subscript_def Vector_at_def)

section \<open>Iteration (\<^verbatim>\<open>pos_list.hpp\<close>, lines 191 to 204)\<close>

text \<open>
  Claim C5 says that iterating a list from \<^verbatim>\<open>begin()\<close> visits the elements
  \<^verbatim>\<open>get(0)\<close> to \<^verbatim>\<open>get(size()-1)\<close>. What the code does for the materialized list
  \<open>{0,0}, {0,1}\<close>: its size is 2 and element 0 is \<open>{0,0}\<close>, and the iteration from
  \<^verbatim>\<open>begin()\<close> to \<^verbatim>\<open>end()\<close> visits nothing, because \<^verbatim>\<open>end()\<close> is
  \<^verbatim>\<open>Vector::begin()\<close>. With the \<^verbatim>\<open>end()\<close> of the second revision the same
  iteration visits both elements.
\<close>

theorem PosList1_end_is_begin:
  "PosList1_size \<lparr>Vector1 = [\<lparr>chunk_id = 0, chunk_offset = 0\<rparr>, \<lparr>chunk_id = 0, chunk_offset = 1\<rparr>],
       matches_all_chunk1 = None, chunk_id1 = 0, single_chunk_flag1 = False\<rparr> = 2
   \<and> PosList1_subscript \<lparr>Vector1 = [\<lparr>chunk_id = 0, chunk_offset = 0\<rparr>, \<lparr>chunk_id = 0, chunk_offset = 1\<rparr>],
       matches_all_chunk1 = None, chunk_id1 = 0, single_chunk_flag1 = False\<rparr> 0 =
       Inr \<lparr>chunk_id = 0, chunk_offset = 0\<rparr>
   \<and> PosList1_iterate (\<lambda>_. \<lparr>row_count = 0\<rparr>)
       \<lparr>Vector1 = [\<lparr>chunk_id = 0, chunk_offset = 0\<rparr>, \<lparr>chunk_id = 0, chunk_offset = 1\<rparr>],
       matches_all_chunk1 = None, chunk_id1 = 0, single_chunk_flag1 = False\<rparr> = Some (Inr [])
   \<and> PosList2_iterate (\<lambda>_. \<lparr>row_count = 0\<rparr>)
       \<lparr>Vector1 = [\<lparr>chunk_id = 0, chunk_offset = 0\<rparr>, \<lparr>chunk_id = 0, chunk_offset = 1\<rparr>],
       matches_all_chunk1 = None, chunk_id1 = 0, single_chunk_flag1 = False\<rparr> =
       Some (Inr [\<lparr>chunk_id = 0, chunk_offset = 0\<rparr>, \<lparr>chunk_id = 0, chunk_offset = 1\<rparr>])"
  by (simp add: PosList1_size_def PosList1_subscript_def Vector_at_def PosList1_iterate_def
      PosList2_iterate_def PosList1_begin_def PosList1_end_def PosList2_end_def iterate.simps
      iterator_operator_eq_def iterator_dereference_def iterator_increment_def)

section \<open>Matches-all lists over a chunk\<close>

text \<open>
  The matches-all PosList of \<^verbatim>\<open>pos_list.hpp\<close>: what its accessors return, and that
  \<^verbatim>\<open>common_chunk_id()\<close> stops at \<^verbatim>\<open>Assert(!empty())\<close> over a chunk without rows.
\<close>

lemma materialize_if_necessary_matches_all:
  assumes "debug \<longrightarrow> c \<noteq> INVALID_CHUNK_ID"
  shows "materialize_if_necessary debug h (PosList_matches_all (Some a) c) =
     Inr \<lparr>Vector = logical_sequence h (PosList_matches_all (Some a) c),
          matches_all_chunk = None, matches_all_chunk_id = INVALID_CHUNK_ID,
          single_chunk_flag = True\<rparr>"
  using materialize_matches_all [OF assms, of h a]
  by (simp add: materialize_if_necessary_def matches_complete_chunk_def
      PosList_matches_all_def guarantee_single_chunk_def)

lemma subscript_matches_all:
  assumes "debug \<longrightarrow> c \<noteq> INVALID_CHUNK_ID" and "i < unat (Chunk_size (h a))"
  shows "PosList_subscript debug h (PosList_matches_all (Some a) c) i =
     Inr (\<lparr>chunk_id = c, chunk_offset = of_nat i\<rparr>,
          \<lparr>Vector = logical_sequence h (PosList_matches_all (Some a) c),
           matches_all_chunk = None, matches_all_chunk_id = INVALID_CHUNK_ID,
           single_chunk_flag = True\<rparr>)"
  using assms(2)
  by (simp add: PosList_subscript_def materialize_if_necessary_matches_all [OF assms(1)]
      Vector_at_def logical_sequence_matches_all)

lemma references_single_chunk_matches_all:
  assumes "debug \<longrightarrow> c \<noteq> INVALID_CHUNK_ID"
  shows "\<exists>l. PosList_references_single_chunk debug h (PosList_matches_all (Some a) c) =
     Inr (True, l)"
proof -
  let ?p = "PosList_matches_all (Some a) c"
  let ?m = "\<lparr>Vector = logical_sequence h ?p,
          matches_all_chunk = None, matches_all_chunk_id = INVALID_CHUNK_ID,
          single_chunk_flag = True\<rparr>"
  have flag: "single_chunk_flag ?p"
    by (simp add: PosList_matches_all_def guarantee_single_chunk_def)
  have size_p: "PosList_size h ?p = unat (Chunk_size (h a))"
    by (simp add: PosList_size_def PosList_matches_all_def guarantee_single_chunk_def)
  show ?thesis
  proof (cases debug)
    case False
    then show ?thesis
      by (simp add: PosList_references_single_chunk_def flag DebugAssert_def)
  next
    case True
    show ?thesis
    proof (cases "unat (Chunk_size (h a)) = 0")
      case empty: True
      then have "single_chunk_scan debug h ?p = Inr (True, ?p)"
        by (simp add: single_chunk_scan_def size_p)
      then show ?thesis
        using True
        by (simp add: PosList_references_single_chunk_def flag DebugAssert_def Assert_def)
    next
      case False
      then have pos: "0 < unat (Chunk_size (h a))" by simp
      have nomat: "materialize_if_necessary debug h ?m = Inr ?m"
        by (simp add: materialize_if_necessary_def matches_complete_chunk_def)
      have sub0: "PosList_subscript debug h ?p 0 = Inr (\<lparr>chunk_id = c, chunk_offset = 0\<rparr>, ?m)"
        using subscript_matches_all [of debug c 0 h a] assms pos by simp
      have "list_all (\<lambda>row_id. chunk_id row_id = c) (logical_sequence h ?p)"
        by (simp add: logical_sequence_matches_all list_all_iff)
      then have "single_chunk_scan debug h ?p = Inr (True, ?m)"
        using pos
        by (simp add: single_chunk_scan_def size_p sub0 PosList_cbegin_def PosList_cend_def nomat)
      then show ?thesis
        using True
        by (simp add: PosList_references_single_chunk_def flag DebugAssert_def Assert_def
            matches_complete_chunk_def)
    qed
  qed
qed

lemma common_chunk_id_empty_chunk:
  assumes "unat (Chunk_size (h a)) = 0"
  shows "PosList_common_chunk_id debug h (PosList_matches_all (Some a) c) = Inl AssertionFailed"
proof -
  let ?p = "PosList_matches_all (Some a) c"
  have flag: "single_chunk_flag ?p"
    by (simp add: PosList_matches_all_def guarantee_single_chunk_def)
  have size_p: "PosList_size h ?p = 0"
    using assms by (simp add: PosList_size_def PosList_matches_all_def guarantee_single_chunk_def)
  have scan: "single_chunk_scan d h ?p = Inr (True, ?p)" for d
    by (simp add: single_chunk_scan_def size_p)
  have refs: "PosList_references_single_chunk d h ?p = Inr (True, ?p)" for d
    by (cases d)
      (simp_all add: PosList_references_single_chunk_def flag scan DebugAssert_def Assert_def)
  show ?thesis
    by (cases debug)
      (simp_all add: PosList_common_chunk_id_def refs DebugAssert_def Assert_def
        PosList_empty_def size_p)
qed

text \<open>
  Claim C6, as the code has it. For the chunk at address \<open>a\<close>, which has \<open>k\<close> rows, and
  a chunk id \<open>c\<close> (in a debug build one other than \<^verbatim>\<open>INVALID_CHUNK_ID\<close>, which is no
  chunk's id). The MatchesAllPosList built over them: \<^verbatim>\<open>size()\<close> is \<open>k\<close>;
  \<^verbatim>\<open>operator[](i)\<close> is \<open>{c, i}\<close> for every \<open>i < k\<close>, the offset being \<open>i\<close> itself and
  not a truncation of it; \<^verbatim>\<open>references_single_chunk()\<close> is true;
  \<^verbatim>\<open>common_chunk_id()\<close> is \<open>c\<close>. The matches-all PosList of \<^verbatim>\<open>pos_list.hpp\<close> built
  over them: \<^verbatim>\<open>size()\<close> is \<open>k\<close>; \<^verbatim>\<open>operator[](i)\<close> is \<open>{c, i}\<close> for every
  \<open>i < k\<close>; \<^verbatim>\<open>references_single_chunk()\<close> is true; \<^verbatim>\<open>common_chunk_id()\<close> is \<open>c\<close>
  when \<open>k \<ge> 1\<close>, and fails its assertion that the list is not empty when \<open>k = 0\<close>.
\<close>

theorem MatchesAllPosList_over_chunk:
  assumes "debug \<longrightarrow> c \<noteq> INVALID_CHUNK_ID"
  shows "MatchesAllPosList_size h (MatchesAllPosList_init (Some a) c) = Inr (unat (Chunk_size (h a)))
   \<and> (\<forall>i. i < unat (Chunk_size (h a)) \<longrightarrow>
        MatchesAllPosList_subscript debug (MatchesAllPosList_init (Some a) c) i =
          Inr \<lparr>chunk_id = c, chunk_offset = of_nat i\<rparr>
        \<and> unat (of_nat i :: ChunkOffset) = i)
   \<and> MatchesAllPosList_references_single_chunk (MatchesAllPosList_init (Some a) c)
   \<and> MatchesAllPosList_common_chunk_id debug (MatchesAllPosList_init (Some a) c) = Inr c
   \<and> PosList_size h (PosList_matches_all (Some a) c) = unat (Chunk_size (h a))
   \<and> (\<forall>i. i < unat (Chunk_size (h a)) \<longrightarrow>
        (\<exists>l. PosList_subscript debug h (PosList_matches_all (Some a) c) i =
          Inr (\<lparr>chunk_id = c, chunk_offset = of_nat i\<rparr>, l)))
   \<and> (\<exists>l. PosList_references_single_chunk debug h (PosList_matches_all (Some a) c) =
        Inr (True, l))
   \<and> (0 < unat (Chunk_size (h a)) \<longrightarrow>
        (\<exists>l. PosList_common_chunk_id debug h (PosList_matches_all (Some a) c) = Inr (c, l)))
   \<and> (unat (Chunk_size (h a)) = 0 \<longrightarrow>
        PosList_common_chunk_id debug h (PosList_matches_all (Some a) c) = Inl AssertionFailed)"
proof -
  have "unat (of_nat i :: ChunkOffset) = i" if "i < unat (Chunk_size (h a))" for i
  proof -
    have "unat (Chunk_size (h a)) < 2 ^ 32"
      using unsigned_less [of "Chunk_size (h a)", where 'a = nat] by simp
    with that have "i < 2 ^ 32" by simp
    then show ?thesis by (simp add: unat_of_nat)
  qed
  with assms have interface:
    "MatchesAllPosList_size h (MatchesAllPosList_init (Some a) c) = Inr (unat (Chunk_size (h a)))
   \<and> (\<forall>i. i < unat (Chunk_size (h a)) \<longrightarrow>
        MatchesAllPosList_subscript debug (MatchesAllPosList_init (Some a) c) i =
          Inr \<lparr>chunk_id = c, chunk_offset = of_nat i\<rparr>
        \<and> unat (of_nat i :: ChunkOffset) = i)
   \<and> MatchesAllPosList_references_single_chunk (MatchesAllPosList_init (Some a) c)
   \<and> MatchesAllPosList_common_chunk_id debug (MatchesAllPosList_init (Some a) c) = Inr c
   \<and> PosList_size h (PosList_matches_all (Some a) c) = unat (Chunk_size (h a))"
    by (auto simp add: MatchesAllPosList_size_def MatchesAllPosList_init_def
        MatchesAllPosList_subscript_def MatchesAllPosList_references_single_chunk_def
        MatchesAllPosList_common_chunk_id_def DebugAssert_def Assert_def PosList_size_def
        PosList_matches_all_def guarantee_single_chunk_def)
  have sub: "\<exists>l. PosList_subscript debug h (PosList_matches_all (Some a) c) i =
          Inr (\<lparr>chunk_id = c, chunk_offset = of_nat i\<rparr>, l)"
    if "i < unat (Chunk_size (h a))" for i
    using subscript_matches_all [of debug c i h a] assms that by blast
  have refs: "\<exists>l. PosList_references_single_chunk debug h (PosList_matches_all (Some a) c) =
        Inr (True, l)"
    by (rule references_single_chunk_matches_all [OF assms])
  have common: "\<exists>l. PosList_common_chunk_id debug h (PosList_matches_all (Some a) c) = Inr (c, l)"
    if "0 < unat (Chunk_size (h a))"
    using common_chunk_id_matches_all [of debug c h a] assms that by blast
  have none: "PosList_common_chunk_id debug h (PosList_matches_all (Some a) c) = Inl AssertionFailed"
    if "unat (Chunk_size (h a)) = 0"
    using common_chunk_id_empty_chunk [of h a debug c] that by simp
  from interface sub refs common none show ?thesis by blast
qed

text \<open>
  Scenario A in a debug build (five rows, chunk id 2, index 3) for both classes, and the
  chunk without rows.
\<close>

theorem MatchesAllPosList_over_chunk_witness:
  "(2 :: ChunkID) \<noteq> INVALID_CHUNK_ID
   \<and> MatchesAllPosList_size (\<lambda>_. \<lparr>row_count = 5\<rparr>) (MatchesAllPosList_init (Some 7) 2) = Inr 5
   \<and> MatchesAllPosList_subscript True (MatchesAllPosList_init (Some 7) 2) 3 =
       Inr \<lparr>chunk_id = 2, chunk_offset = 3\<rparr>
   \<and> MatchesAllPosList_references_single_chunk (MatchesAllPosList_init (Some 7) 2)
   \<and> MatchesAllPosList_common_chunk_id True (MatchesAllPosList_init (Some 7) 2) = Inr 2
   \<and> PosList_size (\<lambda>_. \<lparr>row_count = 5\<rparr>) (PosList_matches_all (Some 7) 2) = 5
   \<and> (\<exists>l. PosList_subscript True (\<lambda>_. \<lparr>row_count = 5\<rparr>) (PosList_matches_all (Some 7) 2) 3 =
        Inr (\<lparr>chunk_id = 2, chunk_offset = 3\<rparr>, l))
   \<and> (\<exists>l. PosList_references_single_chunk True (\<lambda>_. \<lparr>row_count = 5\<rparr>)
        (PosList_matches_all (Some 7) 2) = Inr (True, l))
   \<and> (\<exists>l. PosList_common_chunk_id True (\<lambda>_. \<lparr>row_count = 5\<rparr>)
        (PosList_matches_all (Some 7) 2) = Inr (2, l))
   \<and> unat (Chunk_size ((\<lambda>_. \<lparr>row_count = 0\<rparr>) (7 :: nat))) = 0
   \<and> PosList_common_chunk_id True (\<lambda>_. \<lparr>row_count = 0\<rparr>) (PosList_matches_all (Some 7) 2) =
       Inl AssertionFailed"
proof -
  have valid: "True \<longrightarrow> (2 :: ChunkID) \<noteq> INVALID_CHUNK_ID"
    by (simp add: INVALID_CHUNK_ID_def)
  have five: "unat (Chunk_size \<lparr>row_count = 5\<rparr>) = 5"
    by (simp add: Chunk_size_def)
  have zero: "unat (Chunk_size \<lparr>row_count = 0\<rparr>) = 0"
    by (simp add: Chunk_size_def)
  note at_five = MatchesAllPosList_over_chunk [OF valid, of "\<lambda>_. \<lparr>row_count = 5\<rparr>" 7]
  from at_five have interface:
    "MatchesAllPosList_size (\<lambda>_. \<lparr>row_count = 5\<rparr>) (MatchesAllPosList_init (Some 7) 2) = Inr 5
   \<and> MatchesAllPosList_references_single_chunk (MatchesAllPosList_init (Some 7) 2)
   \<and> MatchesAllPosList_common_chunk_id True (MatchesAllPosList_init (Some 7) 2) = Inr 2
   \<and> PosList_size (\<lambda>_. \<lparr>row_count = 5\<rparr>) (PosList_matches_all (Some 7) 2) = 5
   \<and> (\<exists>l. PosList_references_single_chunk True (\<lambda>_. \<lparr>row_count = 5\<rparr>)
        (PosList_matches_all (Some 7) 2) = Inr (True, l))
   \<and> (\<exists>l. PosList_common_chunk_id True (\<lambda>_. \<lparr>row_count = 5\<rparr>)
        (PosList_matches_all (Some 7) 2) = Inr (2, l))"
    by (simp add: five)
  from at_five have "\<forall>i. i < unat (Chunk_size ((\<lambda>_. \<lparr>row_count = 5\<rparr>) (7 :: nat))) \<longrightarrow>
        MatchesAllPosList_subscript True (MatchesAllPosList_init (Some 7) 2) i =
          Inr \<lparr>chunk_id = 2, chunk_offset = of_nat i\<rparr>
        \<and> unat (of_nat i :: ChunkOffset) = i"
    by (elim conjE)
  from this [rule_format, of 3]
  have get: "MatchesAllPosList_subscript True (MatchesAllPosList_init (Some 7) 2) 3 =
       Inr \<lparr>chunk_id = 2, chunk_offset = 3\<rparr>"
    by (simp add: five)
  from at_five have "\<forall>i. i < unat (Chunk_size ((\<lambda>_. \<lparr>row_count = 5\<rparr>) (7 :: nat))) \<longrightarrow>
        (\<exists>l. PosList_subscript True (\<lambda>_. \<lparr>row_count = 5\<rparr>) (PosList_matches_all (Some 7) 2) i =
          Inr (\<lparr>chunk_id = 2, chunk_offset = of_nat i\<rparr>, l))"
    by (elim conjE)
  from this [rule_format, of 3]
  have sub: "\<exists>l. PosList_subscript True (\<lambda>_. \<lparr>row_count = 5\<rparr>) (PosList_matches_all (Some 7) 2) 3 =
        Inr (\<lparr>chunk_id = 2, chunk_offset = 3\<rparr>, l)"
    by (simp add: five)
  from MatchesAllPosList_over_chunk [OF valid, of "\<lambda>_. \<lparr>row_count = 0\<rparr>" 7]
  have none: "PosList_common_chunk_id True (\<lambda>_. \<lparr>row_count = 0\<rparr>) (PosList_matches_all (Some 7) 2) =
       Inl AssertionFailed"
    by (simp add: zero)
  from valid interface get sub none zero show ?thesis by simp
qed

text \<open>
  Over a chunk without rows, \<^verbatim>\<open>common_chunk_id()\<close> of the matches-all PosList of
  \<^verbatim>\<open>pos_list.hpp\<close> with chunk id 2 does not return 2: it fails
  \<^verbatim>\<open>Assert(!empty())\<close>, in a release build and in a debug build.
\<close>

theorem MatchesAllPosList_over_chunk_counterexample:
  "PosList_size (\<lambda>_. \<lparr>row_count = 0\<rparr>) (PosList_matches_all (Some 7) 2) = 0
   \<and> PosList_common_chunk_id False (\<lambda>_. \<lparr>row_count = 0\<rparr>) (PosList_matches_all (Some 7) 2) =
       Inl AssertionFailed
   \<and> PosList_common_chunk_id True (\<lambda>_. \<lparr>row_count = 0\<rparr>) (PosList_matches_all (Some 7) 2) =
       Inl AssertionFailed"
  by (simp add: common_chunk_id_empty_chunk Chunk_size_def)
     (simp add: PosList_size_def PosList_matches_all_def guarantee_single_chunk_def Chunk_size_def)

section \<open>\<^verbatim>\<open>memory_usage\<close>\<close>

text \<open>
  Claim C7 says that a range-backed list reports its fixed struct size. What the code
  does, with the object sizes of a 64-bit platform (a pointer of 8 bytes, list objects of
  32 bytes): \<^verbatim>\<open>SingleChunkPosList::memory_usage\<close> of
  \<^verbatim>\<open>single_chunk_pos_list.hpp\<close> returns 8, the size of the pointer \<^verbatim>\<open>this\<close>; the
  later revision of the same function returns 32, and so does
  \<^verbatim>\<open>MatchesAllPosList::memory_usage\<close>. The materialized list of three elements reports
  three times the size of a RowID.
\<close>

theorem SingleChunkPosList_memory_usage_is_pointer_size:
  "SingleChunkPosList_memory_usage
       \<lparr>sizeof_pointer = 8, sizeof_MatchesAllPosList = 32, sizeof_SingleChunkPosList = 32\<rparr>
       Full (SingleChunkPosList_init 4) = 8
   \<and> SingleChunkPosList2_memory_usage
       \<lparr>sizeof_pointer = 8, sizeof_MatchesAllPosList = 32, sizeof_SingleChunkPosList = 32\<rparr>
       Full (SingleChunkPosList_init 4) = 32
   \<and> MatchesAllPosList_memory_usage
       \<lparr>sizeof_pointer = 8, sizeof_MatchesAllPosList = 32, sizeof_SingleChunkPosList = 32\<rparr>
       Full (MatchesAllPosList_init (Some 5) 4) = 32
   \<and> PosListA_memory_usage Full (PosListA_init [\<lparr>chunk_id = 0, chunk_offset = 0\<rparr>,
          \<lparr>chunk_id = 0, chunk_offset = 1\<rparr>, \<lparr>chunk_id = 0, chunk_offset = 2\<rparr>]) = 3 * sizeof_RowID"
  by (simp add: SingleChunkPosList_memory_usage_def SingleChunkPosList2_memory_usage_def
      MatchesAllPosList_memory_usage_def PosListA_memory_usage_def PosListA_size_def
      PosListA_init_def)

section \<open>Const accessors of the PosList of \<^verbatim>\<open>pos_list.hpp\<close>\<close>

text \<open>
  Claim C8 says that a read-only accessor leaves the representation unchanged. What the
  code does, in a release build, for the matches-all list over a chunk of three rows with
  id 2: \<^verbatim>\<open>operator[] const\<close>, \<^verbatim>\<open>cbegin() const\<close> and \<^verbatim>\<open>cend() const\<close> each
  leave a list behind whose vector holds \<open>{2,0}, {2,1}, {2,2}\<close> and whose sentinel is
  reset, where the list they were called on had an empty vector and the sentinel set.
\<close>

theorem const_accessors_materialize:
  "PosList_subscript False (\<lambda>_. \<lparr>row_count = 3\<rparr>) (PosList_matches_all (Some 5) 2) 1 =
     Inr (\<lparr>chunk_id = 2, chunk_offset = 1\<rparr>,
          \<lparr>Vector = [\<lparr>chunk_id = 2, chunk_offset = 0\<rparr>, \<lparr>chunk_id = 2, chunk_offset = 1\<rparr>,
                     \<lparr>chunk_id = 2, chunk_offset = 2\<rparr>],
           matches_all_chunk = None, matches_all_chunk_id = INVALID_CHUNK_ID,
           single_chunk_flag = True\<rparr>)
   \<and> PosList_cbegin False (\<lambda>_. \<lparr>row_count = 3\<rparr>) (PosList_matches_all (Some 5) 2) =
     Inr (0,
          \<lparr>Vector = [\<lparr>chunk_id = 2, chunk_offset = 0\<rparr>, \<lparr>chunk_id = 2, chunk_offset = 1\<rparr>,
                     \<lparr>chunk_id = 2, chunk_offset = 2\<rparr>],
           matches_all_chunk = None, matches_all_chunk_id = INVALID_CHUNK_ID,
           single_chunk_flag = True\<rparr>)
   \<and> PosList_cend False (\<lambda>_. \<lparr>row_count = 3\<rparr>) (PosList_matches_all (Some 5) 2) =
     Inr (3,
          \<lparr>Vector = [\<lparr>chunk_id = 2, chunk_offset = 0\<rparr>, \<lparr>chunk_id = 2, chunk_offset = 1\<rparr>,
                     \<lparr>chunk_id = 2, chunk_offset = 2\<rparr>],
           matches_all_chunk = None, matches_all_chunk_id = INVALID_CHUNK_ID,
           single_chunk_flag = True\<rparr>)
   \<and> PosList_matches_all (Some 5) 2 =
       \<lparr>Vector = [], matches_all_chunk = Some 5, matches_all_chunk_id = 2,
        single_chunk_flag = True\<rparr>"
proof -
  have three: "[0..<unat (Chunk_size \<lparr>row_count = 3\<rparr>)] = [0, 1, 2]"
    by (simp add: Chunk_size_def upt_conv_Cons)
  have "materialize_if_necessary False (\<lambda>_. \<lparr>row_count = 3\<rparr>) (PosList_matches_all (Some 5) 2) =
     Inr \<lparr>Vector = [\<lparr>chunk_id = 2, chunk_offset = 0\<rparr>, \<lparr>chunk_id = 2, chunk_offset = 1\<rparr>,
                     \<lparr>chunk_id = 2, chunk_offset = 2\<rparr>],
           matches_all_chunk = None, matches_all_chunk_id = INVALID_CHUNK_ID,
           single_chunk_flag = True\<rparr>"
    using materialize_matches_all [of False 2 "\<lambda>_. \<lparr>row_count = 3\<rparr>" 5]
    by (simp add: materialize_if_necessary_def matches_complete_chunk_def
        logical_sequence_matches_all three)
       (simp add: PosList_matches_all_def guarantee_single_chunk_def)
  then show ?thesis
    by (simp add: PosList_subscript_def PosList_cbegin_def PosList_cend_def Vector_at_def)
       (simp add: PosList_matches_all_def guarantee_single_chunk_def)
qed

section \<open>The single-chunk guarantee\<close>

text \<open>
  Claim C9, as the code has it. In every build: if \<^verbatim>\<open>references_single_chunk()\<close> of
  a materialized PosList returns true, the list is not empty and its flag agrees with its
  elements (all of them share one chunk id, which is what the exhaustive scan tests),
  then every element has the chunk id that \<^verbatim>\<open>common_chunk_id()\<close> returns. A debug
  build verifies that agreement: there \<^verbatim>\<open>references_single_chunk()\<close> returns true
  only if the scan passes, fails its assertion when the flag is set and the scan does not
  pass, and so the invariant holds there without the proviso. A release build returns the
  advisory flag without looking at the elements. For a SingleChunkPosList with a valid
  iterator range, and for a MatchesAllPosList (in a debug build, with a chunk id other
  than \<^verbatim>\<open>INVALID_CHUNK_ID\<close>), the invariant holds in every build, by construction of
  the elements.
\<close>

theorem single_chunk_invariant:
  "(PosListA_references_single_chunk True p = Inr True \<and> \<not> PosListA_empty p \<longrightarrow>
      (\<forall>i. i < PosListA_size p \<longrightarrow>
         (\<exists>r. PosListA_subscript p i = Inr r
              \<and> PosListA_common_chunk_id True p = Inr (chunk_id r))))
   \<and> (PosListA_references_single_chunk debug p = Inr True \<and> PosListA_scan p
        \<and> \<not> PosListA_empty p \<longrightarrow>
      (\<forall>i. i < PosListA_size p \<longrightarrow>
         (\<exists>r. PosListA_subscript p i = Inr r
              \<and> PosListA_common_chunk_id debug p = Inr (chunk_id r))))
   \<and> (PosListA_references_single_chunk True p = Inr True \<longrightarrow> PosListA_scan p)
   \<and> (single_chunk_flagA p \<and> \<not> PosListA_scan p \<longrightarrow>
        PosListA_references_single_chunk True p = Inl AssertionFailed)
   \<and> PosListA_references_single_chunk False p = Inr (single_chunk_flagA p)
   \<and> (range_begin s \<le> range_end s \<and> range_end s \<le> length (index_offsets s) \<longrightarrow>
        SingleChunkPosList_references_single_chunk s
        \<and> (\<forall>i. i < SingleChunkPosList_size s \<longrightarrow>
             (\<exists>r. SingleChunkPosList_subscript s i = Inr r
                  \<and> chunk_id r = SingleChunkPosList_common_chunk_id s)))
   \<and> ((debug \<longrightarrow> common_chunk_id m \<noteq> INVALID_CHUNK_ID) \<longrightarrow>
        MatchesAllPosList_references_single_chunk m
        \<and> (\<forall>i. \<exists>r. MatchesAllPosList_subscript debug m i = Inr r
                  \<and> MatchesAllPosList_common_chunk_id debug m = Inr (chunk_id r)))"
proof -
  have A: "\<exists>r. PosListA_subscript p i = Inr r \<and> PosListA_common_chunk_id True p = Inr (chunk_id r)"
    if refs: "PosListA_references_single_chunk True p = Inr True"
      and ne: "\<not> PosListA_empty p" and i: "i < PosListA_size p" for i
  proof -
    from refs have "PosListA_scan p"
      by (auto simp add: PosListA_references_single_chunk_def DebugAssert_def Assert_def
          split: if_splits)
    with ne have "list_all (\<lambda>row_id. chunk_id row_id = chunk_id (VectorA p ! 0)) (VectorA p)"
      by (simp add: PosListA_scan_def PosListA_size_def PosListA_empty_def)
    with i have same: "chunk_id (VectorA p ! i) = chunk_id (VectorA p ! 0)"
      by (simp add: list_all_length PosListA_size_def)
    have "PosListA_common_chunk_id True p = Inr (chunk_id (VectorA p ! 0))"
      using refs ne
      by (simp add: PosListA_common_chunk_id_def PosListA_empty_def DebugAssert_def Assert_def
          PosListA_subscript_def Vector_at_def)
    with i same show ?thesis
      by (simp add: PosListA_subscript_def Vector_at_def PosListA_size_def)
  qed
  have A': "\<exists>r. PosListA_subscript p i = Inr r
        \<and> PosListA_common_chunk_id debug p = Inr (chunk_id r)"
    if refs: "PosListA_references_single_chunk debug p = Inr True" and scan: "PosListA_scan p"
      and ne: "\<not> PosListA_empty p" and i: "i < PosListA_size p" for i
  proof -
    from scan ne
    have "list_all (\<lambda>row_id. chunk_id row_id = chunk_id (VectorA p ! 0)) (VectorA p)"
      by (simp add: PosListA_scan_def PosListA_size_def PosListA_empty_def)
    with i have same: "chunk_id (VectorA p ! i) = chunk_id (VectorA p ! 0)"
      by (simp add: list_all_length PosListA_size_def)
    have "PosListA_common_chunk_id debug p = Inr (chunk_id (VectorA p ! 0))"
      using refs ne
      by (cases debug)
        (simp_all add: PosListA_common_chunk_id_def PosListA_empty_def DebugAssert_def
          Assert_def PosListA_subscript_def Vector_at_def)
    with i same show ?thesis
      by (simp add: PosListA_subscript_def Vector_at_def PosListA_size_def)
  qed
  have V: "PosListA_scan p" if "PosListA_references_single_chunk True p = Inr True"
    using that
    by (auto simp add: PosListA_references_single_chunk_def DebugAssert_def Assert_def
        split: if_splits)
  have R: "PosListA_references_single_chunk False p = Inr (single_chunk_flagA p)"
    by (simp add: PosListA_references_single_chunk_def DebugAssert_def)
  have B: "PosListA_references_single_chunk True p = Inl AssertionFailed"
    if "single_chunk_flagA p" and "\<not> PosListA_scan p"
    using that by (simp add: PosListA_references_single_chunk_def DebugAssert_def Assert_def)
  have C: "\<exists>r. SingleChunkPosList_subscript s i = Inr r
        \<and> chunk_id r = SingleChunkPosList_common_chunk_id s"
    if "range_begin s \<le> range_end s" and "range_end s \<le> length (index_offsets s)"
      and "i < SingleChunkPosList_size s" for i
    using that
    by (simp add: SingleChunkPosList_subscript_def SingleChunkPosList_size_def
        SingleChunkPosList_common_chunk_id_def)
  have D: "\<exists>r. MatchesAllPosList_subscript debug m i = Inr r
        \<and> MatchesAllPosList_common_chunk_id debug m = Inr (chunk_id r)"
    if "debug \<longrightarrow> common_chunk_id m \<noteq> INVALID_CHUNK_ID" for i
    using that
    by (simp add: MatchesAllPosList_subscript_def MatchesAllPosList_common_chunk_id_def
        DebugAssert_def Assert_def)
  from A A' V R B C D show ?thesis
    by (simp add: SingleChunkPosList_references_single_chunk_def
        MatchesAllPosList_references_single_chunk_def)
qed

text \<open>
  The theorem at the list \<open>{0,0}, {0,1}, {0,2}\<close> with the guarantee set and the index
  2 in both builds, at the list \<open>{0,0}, {1,0}\<close> with the guarantee set in both builds, at
  the range of seven offsets with the index 6, and at a MatchesAllPosList with id 2 and
  the index 3.
\<close>

theorem single_chunk_invariant_witness:
  "PosListA_references_single_chunk True
        (PosListA_guarantee_single_chunk
          (PosListA_init [\<lparr>chunk_id = 0, chunk_offset = 0\<rparr>, \<lparr>chunk_id = 0, chunk_offset = 1\<rparr>,
             \<lparr>chunk_id = 0, chunk_offset = 2\<rparr>])) = Inr True
   \<and> \<not> PosListA_empty
        (PosListA_guarantee_single_chunk
          (PosListA_init [\<lparr>chunk_id = 0, chunk_offset = 0\<rparr>, \<lparr>chunk_id = 0, chunk_offset = 1\<rparr>,
             \<lparr>chunk_id = 0, chunk_offset = 2\<rparr>]))
   \<and> 2 < PosListA_size
        (PosListA_guarantee_single_chunk
          (PosListA_init [\<lparr>chunk_id = 0, chunk_offset = 0\<rparr>, \<lparr>chunk_id = 0, chunk_offset = 1\<rparr>,
             \<lparr>chunk_id = 0, chunk_offset = 2\<rparr>]))
   \<and> (\<exists>r. PosListA_subscript
        (PosListA_guarantee_single_chunk
          (PosListA_init [\<lparr>chunk_id = 0, chunk_offset = 0\<rparr>, \<lparr>chunk_id = 0, chunk_offset = 1\<rparr>,
             \<lparr>chunk_id = 0, chunk_offset = 2\<rparr>])) 2 = Inr r
        \<and> PosListA_common_chunk_id True
        (PosListA_guarantee_single_chunk
          (PosListA_init [\<lparr>chunk_id = 0, chunk_offset = 0\<rparr>, \<lparr>chunk_id = 0, chunk_offset = 1\<rparr>,
             \<lparr>chunk_id = 0, chunk_offset = 2\<rparr>])) = Inr (chunk_id r))
   \<and> PosListA_references_single_chunk False
        (PosListA_guarantee_single_chunk
          (PosListA_init [\<lparr>chunk_id = 0, chunk_offset = 0\<rparr>, \<lparr>chunk_id = 0, chunk_offset = 1\<rparr>,
             \<lparr>chunk_id = 0, chunk_offset = 2\<rparr>])) = Inr True
   \<and> PosListA_scan
        (PosListA_guarantee_single_chunk
          (PosListA_init [\<lparr>chunk_id = 0, chunk_offset = 0\<rparr>, \<lparr>chunk_id = 0, chunk_offset = 1\<rparr>,
             \<lparr>chunk_id = 0, chunk_offset = 2\<rparr>]))
   \<and> (\<exists>r. PosListA_subscript
        (PosListA_guarantee_single_chunk
          (PosListA_init [\<lparr>chunk_id = 0, chunk_offset = 0\<rparr>, \<lparr>chunk_id = 0, chunk_offset = 1\<rparr>,
             \<lparr>chunk_id = 0, chunk_offset = 2\<rparr>])) 2 = Inr r
        \<and> PosListA_common_chunk_id False
        (PosListA_guarantee_single_chunk
          (PosListA_init [\<lparr>chunk_id = 0, chunk_offset = 0\<rparr>, \<lparr>chunk_id = 0, chunk_offset = 1\<rparr>,
             \<lparr>chunk_id = 0, chunk_offset = 2\<rparr>])) = Inr (chunk_id r))
   \<and> single_chunk_flagA
        (PosListA_guarantee_single_chunk
          (PosListA_init [\<lparr>chunk_id = 0, chunk_offset = 0\<rparr>, \<lparr>chunk_id = 1, chunk_offset = 0\<rparr>]))
   \<and> \<not> PosListA_scan
        (PosListA_guarantee_single_chunk
          (PosListA_init [\<lparr>chunk_id = 0, chunk_offset = 0\<rparr>, \<lparr>chunk_id = 1, chunk_offset = 0\<rparr>]))
   \<and> PosListA_references_single_chunk True
        (PosListA_guarantee_single_chunk
          (PosListA_init [\<lparr>chunk_id = 0, chunk_offset = 0\<rparr>, \<lparr>chunk_id = 1, chunk_offset = 0\<rparr>])) =
       Inl AssertionFailed
   \<and> PosListA_references_single_chunk False
        (PosListA_guarantee_single_chunk
          (PosListA_init [\<lparr>chunk_id = 0, chunk_offset = 0\<rparr>, \<lparr>chunk_id = 1, chunk_offset = 0\<rparr>])) =
       Inr True
   \<and> 6 < SingleChunkPosList_size \<lparr>index_offsets = [10, 11, 12, 13, 14, 15, 16],
        range_begin = 0, range_end = 7, single_chunk_id = 4\<rparr>
   \<and> (\<exists>r. SingleChunkPosList_subscript \<lparr>index_offsets = [10, 11, 12, 13, 14, 15, 16],
        range_begin = 0, range_end = 7, single_chunk_id = 4\<rparr> 6 = Inr r
        \<and> chunk_id r = SingleChunkPosList_common_chunk_id \<lparr>index_offsets = [10, 11, 12, 13, 14, 15, 16],
        range_begin = 0, range_end = 7, single_chunk_id = 4\<rparr>)
   \<and> common_chunk_id (MatchesAllPosList_init (Some 7) 2) \<noteq> INVALID_CHUNK_ID
   \<and> (\<exists>r. MatchesAllPosList_subscript True (MatchesAllPosList_init (Some 7) 2) 3 = Inr r
        \<and> MatchesAllPosList_common_chunk_id True (MatchesAllPosList_init (Some 7) 2) =
            Inr (chunk_id r))"
proof -
  let ?one = "PosListA_guarantee_single_chunk
          (PosListA_init [\<lparr>chunk_id = 0, chunk_offset = 0\<rparr>, \<lparr>chunk_id = 0, chunk_offset = 1\<rparr>,
             \<lparr>chunk_id = 0, chunk_offset = 2\<rparr>])"
  let ?bad = "PosListA_guarantee_single_chunk
          (PosListA_init [\<lparr>chunk_id = 0, chunk_offset = 0\<rparr>, \<lparr>chunk_id = 1, chunk_offset = 0\<rparr>])"
  let ?s = "\<lparr>index_offsets = [10, 11, 12, 13, 14, 15, 16 :: ChunkOffset],
        range_begin = 0, range_end = 7, single_chunk_id = 4 :: ChunkID\<rparr>"
  let ?m = "MatchesAllPosList_init (Some 7) 2"
  have h1: "PosListA_references_single_chunk True ?one = Inr True"
    by (simp add: PosListA_references_single_chunk_def PosListA_guarantee_single_chunk_def
        PosListA_init_def PosListA_scan_def PosListA_size_def DebugAssert_def Assert_def)
  have h2: "\<not> PosListA_empty ?one"
    by (simp add: PosListA_empty_def PosListA_guarantee_single_chunk_def PosListA_init_def)
  have h3: "2 < PosListA_size ?one"
    by (simp add: PosListA_size_def PosListA_guarantee_single_chunk_def PosListA_init_def)
  have h4: "single_chunk_flagA ?bad"
    by (simp add: PosListA_guarantee_single_chunk_def)
  have h5: "\<not> PosListA_scan ?bad"
    by (simp add: PosListA_scan_def PosListA_size_def PosListA_guarantee_single_chunk_def
        PosListA_init_def)
  have h6: "range_begin ?s \<le> range_end ?s \<and> range_end ?s \<le> length (index_offsets ?s)"
    by simp
  have h7: "6 < SingleChunkPosList_size ?s"
    by (simp add: SingleChunkPosList_size_def)
  have h8: "common_chunk_id ?m \<noteq> INVALID_CHUNK_ID"
    by (simp add: MatchesAllPosList_init_def INVALID_CHUNK_ID_def)
  from single_chunk_invariant [where p = ?one] h1 h2 h3
  have a: "\<exists>r. PosListA_subscript ?one 2 = Inr r
      \<and> PosListA_common_chunk_id True ?one = Inr (chunk_id r)"
    by blast
  have h1r: "PosListA_references_single_chunk False ?one = Inr True"
    by (simp add: PosListA_references_single_chunk_def PosListA_guarantee_single_chunk_def
        DebugAssert_def)
  from single_chunk_invariant [where p = ?one] h1
  have sc: "PosListA_scan ?one"
    by blast
  from single_chunk_invariant [where p = ?one and debug = False] h1r sc h2 h3
  have a': "\<exists>r. PosListA_subscript ?one 2 = Inr r
      \<and> PosListA_common_chunk_id False ?one = Inr (chunk_id r)"
    by blast
  from single_chunk_invariant [where p = ?bad] h4
  have rel: "PosListA_references_single_chunk False ?bad = Inr True"
    by simp
  from single_chunk_invariant [where p = ?bad] h4 h5
  have b: "PosListA_references_single_chunk True ?bad = Inl AssertionFailed"
    by blast
  from single_chunk_invariant [where s = ?s] h6 h7
  have c: "\<exists>r. SingleChunkPosList_subscript ?s 6 = Inr r
      \<and> chunk_id r = SingleChunkPosList_common_chunk_id ?s"
    by blast
  from single_chunk_invariant [where m = ?m and debug = True] h8
  have d: "\<exists>r. MatchesAllPosList_subscript True ?m 3 = Inr r
      \<and> MatchesAllPosList_common_chunk_id True ?m = Inr (chunk_id r)"
    by blast
  from h1 h2 h3 h4 h5 h7 h8 h1r sc a a' b rel c d show ?thesis by blast
qed

text \<open>
  In a release build the list \<open>{0,0}, {1,0}\<close> with the guarantee set is not empty,
  \<^verbatim>\<open>references_single_chunk()\<close> returns true, \<^verbatim>\<open>common_chunk_id()\<close> returns 0, and
  element 1 has the chunk id 1.
\<close>

text \<open>
  In a release build the list \<open>{0,0}, {1,0}\<close> with the guarantee set is not empty,
  \<^verbatim>\<open>references_single_chunk()\<close> returns true, \<^verbatim>\<open>common_chunk_id()\<close> returns 0, and
  element 1 has the chunk id 1.
\<close>

theorem single_chunk_invariant_counterexample:
  "PosListA_references_single_chunk False
        (PosListA_guarantee_single_chunk
          (PosListA_init [\<lparr>chunk_id = 0, chunk_offset = 0\<rparr>, \<lparr>chunk_id = 1, chunk_offset = 0\<rparr>])) =
       Inr True
   \<and> \<not> PosListA_empty
        (PosListA_guarantee_single_chunk
          (PosListA_init [\<lparr>chunk_id = 0, chunk_offset = 0\<rparr>, \<lparr>chunk_id = 1, chunk_offset = 0\<rparr>]))
   \<and> PosListA_size
        (PosListA_guarantee_single_chunk
          (PosListA_init [\<lparr>chunk_id = 0, chunk_offset = 0\<rparr>, \<lparr>chunk_id = 1, chunk_offset = 0\<rparr>])) = 2
   \<and> PosListA_subscript
        (PosListA_guarantee_single_chunk
          (PosListA_init [\<lparr>chunk_id = 0, chunk_offset = 0\<rparr>, \<lparr>chunk_id = 1, chunk_offset = 0\<rparr>])) 1 =
       Inr \<lparr>chunk_id = 1, chunk_offset = 0\<rparr>
   \<and> PosListA_common_chunk_id False
        (PosListA_guarantee_single_chunk
          (PosListA_init [\<lparr>chunk_id = 0, chunk_offset = 0\<rparr>, \<lparr>chunk_id = 1, chunk_offset = 0\<rparr>])) =
       Inr 0"
  by (simp add: PosListA_references_single_chunk_def PosListA_guarantee_single_chunk_def
      PosListA_init_def DebugAssert_def PosListA_empty_def PosListA_size_def
      PosListA_subscript_def Vector_at_def PosListA_common_chunk_id_def Assert_def)

section \<open>The move constructor (\<^verbatim>\<open>pos_list.hpp\<close>, lines 600 to 604)\<close>

text \<open>
  Claim C10. The list that \<^verbatim>\<open>PosList(PosList&& other)\<close> builds has the vector and
  the flag of \<open>other\<close>, no chunk, and the chunk id \<^verbatim>\<open>INVALID_CHUNK_ID\<close>. Built from an
  unmaterialized matches-all list over a chunk of \<open>k\<close> rows, whose size is \<open>k\<close>, it has
  the size 0 and denotes the empty sequence.
\<close>

theorem PosList_move_drops_sentinel:
  "Vector (fst (PosList_move other)) = Vector other
   \<and> single_chunk_flag (fst (PosList_move other)) = single_chunk_flag other
   \<and> matches_all_chunk (fst (PosList_move other)) = None
   \<and> matches_all_chunk_id (fst (PosList_move other)) = INVALID_CHUNK_ID
   \<and> PosList_size h (PosList_matches_all (Some a) c) = unat (Chunk_size (h a))
   \<and> PosList_size h (fst (PosList_move (PosList_matches_all (Some a) c))) = 0
   \<and> logical_sequence h (fst (PosList_move (PosList_matches_all (Some a) c))) = []"
  by (simp add: PosList_move_def PosList_size_def PosList_matches_all_def
      guarantee_single_chunk_def logical_sequence_def)

end
